theory Spec2Isabelle
  imports Complex_Main
begin

section \<open>Python values, strings and exceptions\<close>

text \<open>
  The two route modules are Flask blueprints: every handler reads query-string
  parameters, runs SQL through \<^verbatim>\<open>execute_query\<close> and reshapes the rows into the Python
  object handed to \<^verbatim>\<open>jsonify\<close>. The embedding keeps that object (a \<open>pyval\<close>) as the
  response body, together with the status code of the returned pair, and records the
  queries handed to the executor.

  Strings are lists of \<open>char\<close>, read as code points below 256. A Python \<^verbatim>\<open>float\<close> is
  represented by the rational it denotes (signed zero, infinities and NaN have no
  representation).
\<close>

datatype pyval =
    PNone
  | PInt int
  | PFloat rat
  | PStr string
  | PList "pyval list"
  | PDict "(string \<times> pyval) list"

text \<open>A numeric column value as the driver delivers it: an \<^verbatim>\<open>int\<close> or a \<^verbatim>\<open>float\<close>;
  \<open>None\<close> of the option type is SQL NULL. A text column is a \<open>string option\<close>. A column that
  is only passed through to the response is a \<open>pyval\<close>.\<close>

datatype num = NInt int | NFloat rat

fun of_num :: "num \<Rightarrow> pyval" where
  "of_num (NInt n) = PInt n"
| "of_num (NFloat x) = PFloat x"

text \<open>The number a numeric Python value denotes (\<open>None\<close> for the other values).\<close>

fun num_value :: "pyval \<Rightarrow> rat option" where
  "num_value (PInt n) = Some (of_int n)"
| "num_value (PFloat x) = Some x"
| "num_value _ = None"

fun is_py_int :: "pyval \<Rightarrow> bool" where
  "is_py_int (PInt n) = True"
| "is_py_int _ = False"

text \<open>Truthiness of a numeric cell (\<^verbatim>\<open>if row[i]\<close>): NULL, \<^verbatim>\<open>0\<close> and \<^verbatim>\<open>0.0\<close> are false.\<close>

fun num_truthy :: "num option \<Rightarrow> bool" where
  "num_truthy None = False"
| "num_truthy (Some (NInt n)) = (n \<noteq> 0)"
| "num_truthy (Some (NFloat x)) = (x \<noteq> 0)"

text \<open>Truthiness of a text cell: NULL and the empty string are false.\<close>

fun text_truthy :: "string option \<Rightarrow> bool" where
  "text_truthy None = False"
| "text_truthy (Some s) = (s \<noteq> [])"

text \<open>Exceptions, each with the text \<^verbatim>\<open>str(e)\<close> gives. \<open>DbError\<close> is whatever
  \<^verbatim>\<open>execute_query\<close> raises.\<close>

datatype exn = DbError string | TypeError string | OverflowError string

fun str_exn :: "exn \<Rightarrow> string" where
  "str_exn (DbError m) = m"
| "str_exn (TypeError m) = m"
| "str_exn (OverflowError m) = m"

definition sq :: string where
  "sq = [CHR 0x27]"

definition nl :: string where
  "nl = [CHR 0x0A]"

subsection \<open>\<^verbatim>\<open>str.strip\<close>, \<^verbatim>\<open>str.split\<close>, \<^verbatim>\<open>str.join\<close>\<close>

text \<open>The characters \<^verbatim>\<open>str.isspace\<close> accepts among the code points below 256:
  TAB, LF, VT, FF, CR, FS, GS, RS, US, SPACE, NEL and NBSP.\<close>

definition py_isspace :: "char \<Rightarrow> bool" where
  "py_isspace c \<longleftrightarrow>
     c \<in> set [CHR 0x09, CHR 0x0A, CHR 0x0B, CHR 0x0C, CHR 0x0D, CHR 0x1C, CHR 0x1D,
              CHR 0x1E, CHR 0x1F, CHR 0x20, CHR 0x85, CHR 0xA0]"

definition lstrip :: "string \<Rightarrow> string" where
  "lstrip s = dropWhile py_isspace s"

definition rstrip :: "string \<Rightarrow> string" where
  "rstrip s = rev (dropWhile py_isspace (rev s))"

definition strip :: "string \<Rightarrow> string" where
  "strip s = rstrip (lstrip s)"

text \<open>\<^verbatim>\<open>s.split(c)\<close> for a one-character separator: the pieces between the
  separators, empty pieces included; the empty string gives one empty piece.\<close>

fun split_on :: "char \<Rightarrow> string \<Rightarrow> string list" where
  "split_on c [] = [[]]"
| "split_on c (x # xs) =
     (if x = c then [] # split_on c xs
      else (case split_on c xs of [] \<Rightarrow> [[x]] | w # ws \<Rightarrow> (x # w) # ws))"

text \<open>\<^verbatim>\<open>sep.join(parts)\<close>.\<close>

fun join :: "string \<Rightarrow> string list \<Rightarrow> string" where
  "join sep [] = []"
| "join sep [p] = p"
| "join sep (p # q # ps) = p @ sep @ join sep (q # ps)"

subsection \<open>\<^verbatim>\<open>int(str)\<close> and \<^verbatim>\<open>str(int)\<close>\<close>

definition is_digit :: "char \<Rightarrow> bool" where
  "is_digit c \<longleftrightarrow> 48 \<le> (of_char c :: nat) \<and> (of_char c :: nat) \<le> 57"

definition digit_val :: "char \<Rightarrow> int" where
  "digit_val c = int (of_char c) - 48"

text \<open>The digit part of a base-10 literal: digits, with single underscores allowed
  between two digits.\<close>

fun digits_ok :: "string \<Rightarrow> bool" where
  "digits_ok [] = False"
| "digits_ok [c] = is_digit c"
| "digits_ok (c # d # cs) =
     (is_digit c \<and> (if d = CHR ''_'' then digits_ok cs else digits_ok (d # cs)))"

definition digits_value :: "string \<Rightarrow> int" where
  "digits_value s = foldl (\<lambda>acc c. 10 * acc + digit_val c) 0 (filter (\<lambda>c. c \<noteq> CHR ''_'') s)"

text \<open>\<^verbatim>\<open>int(s)\<close> for a string: surrounding whitespace is skipped, then an optional sign
  and the digit part; \<open>None\<close> is \<^verbatim>\<open>ValueError\<close>. (The limit on the number of digits that
  recent interpreters apply to very long literals is not represented.)\<close>

definition py_int :: "string \<Rightarrow> int option" where
  "py_int s =
     (case strip s of
        [] \<Rightarrow> None
      | c # cs \<Rightarrow>
          if c = CHR ''-'' then (if digits_ok cs then Some (- digits_value cs) else None)
          else if c = CHR ''+'' then (if digits_ok cs then Some (digits_value cs) else None)
          else if digits_ok (c # cs) then Some (digits_value (c # cs)) else None)"

function str_nat :: "nat \<Rightarrow> string" where
  "str_nat n =
     (if n < 10 then [char_of (48 + n)] else str_nat (n div 10) @ [char_of (48 + n mod 10)])"
  by pat_completeness auto
termination
  by (relation "measure id") auto

declare str_nat.simps [simp del]

definition str_int :: "int \<Rightarrow> string" where
  "str_int n = (if n < 0 then CHR ''-'' # str_nat (nat (- n)) else str_nat (nat n))"

subsection \<open>Conversions between numbers\<close>

text \<open>\<^verbatim>\<open>int(x)\<close> of a float truncates toward zero.\<close>

definition trunc :: "rat \<Rightarrow> int" where
  "trunc x = (if 0 \<le> x then \<lfloor>x\<rfloor> else \<lceil>x\<rceil>)"

fun py_int_num :: "num \<Rightarrow> int" where
  "py_int_num (NInt n) = n"
| "py_int_num (NFloat x) = trunc x"

fun bit_length :: "nat \<Rightarrow> nat" where
  "bit_length n = (if n = 0 then 0 else Suc (bit_length (n div 2)))"

declare bit_length.simps [simp del]

text \<open>
  \<^verbatim>\<open>float(n)\<close> of an integer: exact up to 53 significant bits; beyond, the nearest
  double with ties to the even mantissa; \<^verbatim>\<open>OverflowError\<close> when the rounded value
  reaches \<open>2 ^ 1024\<close>.
\<close>

definition float_of_int :: "int \<Rightarrow> exn + rat" where
  "float_of_int n =
     (let a = nat \<bar>n\<bar>; k = bit_length a - 53
      in if bit_length a \<le> 53 then Inr (of_int n)
         else let q = a div 2 ^ k; r = a mod 2 ^ k; h = 2 ^ (k - 1);
                  m = (if h < r \<or> (r = h \<and> odd q) then q + 1 else q)
              in if 2 ^ 1024 \<le> m * 2 ^ k
                 then Inl (OverflowError ''int too large to convert to float'')
                 else Inr (of_int (sgn n * int (m * 2 ^ k))))"

fun py_float :: "num \<Rightarrow> exn + rat" where
  "py_float (NInt n) = float_of_int n"
| "py_float (NFloat x) = Inr x"

section \<open>Requests, responses and the query executor\<close>

text \<open>\<^verbatim>\<open>request.args\<close> as a partial map; \<^verbatim>\<open>request.args.get(k, "")\<close>.\<close>

type_synonym args = "string \<Rightarrow> string option"

definition arg_get :: "args \<Rightarrow> string \<Rightarrow> string" where
  "arg_get a k = (case a k of None \<Rightarrow> [] | Some v \<Rightarrow> v)"

text \<open>
  \<^verbatim>\<open>execute_query\<close> lives in \<^verbatim>\<open>database.connection\<close>, outside these two modules; it is a
  parameter of every handler: given the SQL text it returns the rows or raises. A handler
  returns the pair of body and status code, and the list of the SQL texts it handed to the
  executor, in order.
\<close>

type_synonym 'row executor = "string \<Rightarrow> exn + 'row list"

type_synonym response = "pyval \<times> nat"

type_synonym outcome = "response \<times> string list"

definition status_message :: "int \<Rightarrow> string \<Rightarrow> pyval" where
  "status_message code msg = PDict [(''status'', PInt code), (''message'', PStr msg)]"

definition error_message :: "string \<Rightarrow> pyval" where
  "error_message msg = PDict [(''status'', PStr ''error''), (''message'', PStr msg)]"

text \<open>A list comprehension whose element expression may raise: the first exception
  ends it.\<close>

fun map_rows :: "('r \<Rightarrow> exn + pyval) \<Rightarrow> 'r list \<Rightarrow> exn + pyval list" where
  "map_rows f [] = Inr []"
| "map_rows f (r # rs) =
     (case f r of
        Inl e \<Rightarrow> Inl e
      | Inr v \<Rightarrow> (case map_rows f rs of Inl e \<Rightarrow> Inl e | Inr vs \<Rightarrow> Inr (v # vs)))"

section \<open>The SQL texts\<close>

text \<open>The multi-line query strings of both modules, with their line breaks and
  indentation; an interpolated value of an f-string is a parameter.\<close>

definition stocked_out_query :: string where
  "stocked_out_query = concat
     [nl,
      ''            SELECT '', nl,
      ''                warehouse_location,'', nl,
      ''                COUNT(*) as total_stocked_out_products,'', nl,
      ''                STUFF(('', nl,
      ''                    SELECT '', sq, '', '', sq, '' + product_code'', nl,
      ''                    FROM tbl_oos_anom t2'', nl,
      ''                    WHERE t2.warehouse_location = t1.warehouse_location'', nl,
      ''                    AND t2.stock_out_reason = '', sq, ''stockout due to less supply'', sq, nl,
      ''                    FOR XML PATH('', sq, sq, '')'', nl,
      ''                ), 1, 2, '', sq, sq, '') as stockout_product_codes'', nl,
      ''            FROM tbl_oos_anom t1'', nl,
      ''            WHERE stock_out_reason = '', sq, ''stockout due to less supply'', sq, nl,
      ''            GROUP BY warehouse_location'', nl,
      ''            ORDER BY total_stocked_out_products DESC'', nl,
      ''        '']"

definition overstocked_query :: string where
  "overstocked_query = concat
     [nl,
      ''            SELECT TOP 10 '', nl,
      ''                product_code,'', nl,
      ''                warehouse_location,'', nl,
      ''                cover_days,'', nl,
      ''                stock_at_hand,'', nl,
      ''                ideal_required_quantity,'', nl,
      ''                stock_diff'', nl,
      ''            FROM tbl_available_stock_anom '', nl,
      ''            WHERE stock_status = '', sq, ''excess'', sq, nl,
      ''            ORDER BY stock_diff DESC'', nl,
      ''        '']"

definition understocked_query :: string where
  "understocked_query = concat
     [nl,
      ''            SELECT TOP 10'', nl,
      ''                product_code, '', nl,
      ''                warehouse_location,'', nl,
      ''                cover_days,'', nl,
      ''                stock_at_hand,'', nl,
      ''                ideal_required_quantity,'', nl,
      ''                stock_diff'', nl,
      ''            FROM tbl_available_stock_anom '', nl,
      ''            WHERE stock_status = '', sq, ''shortage'', sq, nl,
      ''            ORDER BY stock_diff ASC'', nl,
      ''        '']"

definition stock_levels_query :: string where
  "stock_levels_query = concat
     [nl,
      ''            WITH available_stock_summary AS ('', nl,
      ''                SELECT '', nl,
      ''                    warehouse_location,'', nl,
      ''                    SUM(CASE WHEN stock_status = '', sq, ''shortage'', sq, '' THEN 1 ELSE 0 END) as partially_stocked,'', nl,
      ''                    SUM(CASE WHEN stock_status = '', sq, ''excess'', sq, '' THEN 1 ELSE 0 END) as fully_stocked'', nl,
      ''                FROM '', nl,
      ''                    tbl_available_stock_anom'', nl,
      ''                GROUP BY '', nl,
      ''                    warehouse_location'', nl,
      ''            ),'', nl,
      ''            oos_summary AS ('', nl,
      ''                SELECT '', nl,
      ''                    warehouse_location,'', nl,
      ''                    COUNT(*) as completely_stockout'', nl,
      ''                FROM '', nl,
      ''                    tbl_oos_anom'', nl,
      ''                GROUP BY '', nl,
      ''                    warehouse_location'', nl,
      ''            )'', nl,
      ''            SELECT '', nl,
      ''                a.warehouse_location,'', nl,
      ''                a.partially_stocked,'', nl,
      ''                a.fully_stocked,'', nl,
      ''                ISNULL(o.completely_stockout, 0) as completely_stockout'', nl,
      ''            FROM '', nl,
      ''                available_stock_summary a'', nl,
      ''            LEFT JOIN '', nl,
      ''                oos_summary o ON a.warehouse_location = o.warehouse_location'', nl,
      ''            ORDER BY '', nl,
      ''                a.warehouse_location'', nl,
      ''        '']"

definition positive_query :: string where
  "positive_query = concat
     [nl,
      ''            SELECT TOP 5'', nl,
      ''                warehouse_location, '', nl,
      ''                product_code, '', nl,
      ''                product_category,'', nl,
      ''                stock_diff,'', nl,
      ''                stock_at_hand,'', nl,
      ''                ideal_required_quantity'', nl,
      ''            FROM tbl_available_stock_anom '', nl,
      ''            WHERE stock_diff > 0'', nl,
      ''            ORDER BY stock_diff DESC'', nl,
      ''        '']"

definition negative_query :: string where
  "negative_query = concat
     [nl,
      ''            SELECT TOP 5'', nl,
      ''                warehouse_location, '', nl,
      ''                product_code, '', nl,
      ''                product_category,'', nl,
      ''                stock_diff,'', nl,
      ''                stock_at_hand,'', nl,
      ''                ideal_required_quantity'', nl,
      ''            FROM tbl_available_stock_anom '', nl,
      ''            WHERE stock_diff < 0'', nl,
      ''            ORDER BY stock_diff ASC'', nl,
      ''        '']"

definition expected_stock_query :: string where
  "expected_stock_query = concat
     [nl,
      ''            SELECT TOP 10'', nl,
      ''                product_code,'', nl,
      ''                SUM(required_stock) as total_required_stock,'', nl,
      ''                COUNT(DISTINCT warehouse_location) as location_count'', nl,
      ''            FROM '', nl,
      ''                tbl_available_stock_anom'', nl,
      ''            GROUP BY '', nl,
      ''                product_code'', nl,
      ''            ORDER BY '', nl,
      ''                total_required_stock DESC'', nl,
      ''        '']"

definition cover_days_summary_query :: string where
  "cover_days_summary_query = concat
     [nl,
      ''            SELECT '', nl,
      ''                CASE '', nl,
      ''                    WHEN cover_days BETWEEN 0 AND 5 THEN '', sq, ''0-5 days'', sq, nl,
      ''                    WHEN cover_days BETWEEN 6 AND 10 THEN '', sq, ''6-10 days'', sq, nl,
      ''                    WHEN cover_days BETWEEN 11 AND 30 THEN '', sq, ''11-30 days'', sq, nl,
      ''                    WHEN cover_days BETWEEN 31 AND 60 THEN '', sq, ''31-60 days'', sq, nl,
      ''                    WHEN cover_days > 60 THEN '', sq, ''Over 60 days'', sq, nl,
      ''                END as cover_days_range,'', nl,
      ''                COUNT(*) as product_count'', nl,
      ''            FROM '', nl,
      ''                tbl_available_stock_anom'', nl,
      ''            GROUP BY '', nl,
      ''                CASE '', nl,
      ''                    WHEN cover_days BETWEEN 0 AND 5 THEN '', sq, ''0-5 days'', sq, nl,
      ''                    WHEN cover_days BETWEEN 6 AND 10 THEN '', sq, ''6-10 days'', sq, nl,
      ''                    WHEN cover_days BETWEEN 11 AND 30 THEN '', sq, ''11-30 days'', sq, nl,
      ''                    WHEN cover_days BETWEEN 31 AND 60 THEN '', sq, ''31-60 days'', sq, nl,
      ''                    WHEN cover_days > 60 THEN '', sq, ''Over 60 days'', sq, nl,
      ''                END'', nl,
      ''            ORDER BY '', nl,
      ''                MIN(cover_days)'', nl,
      ''        '']"

definition discontinued_query :: string where
  "discontinued_query = concat
     [nl,
      ''            SELECT '', nl,
      ''                warehouse_location,'', nl,
      ''                COUNT(DISTINCT product_code) as discontinued_products_count,'', nl,
      ''                STUFF(('', nl,
      ''                    SELECT '', sq, '', '', sq, '' + product_code'', nl,
      ''                    FROM tbl_oos_anom t2'', nl,
      ''                    WHERE t2.warehouse_location = t1.warehouse_location'', nl,
      ''                    AND t2.stock_out_reason = '', sq, ''stockout due to discontinuation'', sq, nl,
      ''                    FOR XML PATH('', sq, sq, '')'', nl,
      ''                ), 1, 2, '', sq, sq, '') as discontinued_product_codes'', nl,
      ''            FROM '', nl,
      ''                tbl_oos_anom t1'', nl,
      ''            WHERE '', nl,
      ''                stock_out_reason = '', sq, ''stockout due to discontinuation'', sq, nl,
      ''            GROUP BY '', nl,
      ''                warehouse_location'', nl,
      ''            ORDER BY '', nl,
      ''                discontinued_products_count DESC'', nl,
      ''        '']"

definition inventory_level_query :: "string \<Rightarrow> string" where
  "inventory_level_query where_clause = concat
     [nl,
      ''            SELECT '', nl,
      ''                warehouse_location,'', nl,
      ''                product_code,'', nl,
      ''                stock_at_hand'', nl,
      ''            FROM tbl_available_stock_anom'', nl,
      ''            WHERE '', where_clause, nl,
      ''            ORDER BY warehouse_location, stock_at_hand DESC'', nl,
      ''        '']"

definition estimated_stockout_query :: "int \<Rightarrow> string" where
  "estimated_stockout_query cover_days = concat
     [nl,
      ''            SELECT '', nl,
      ''                warehouse_location,'', nl,
      ''                COUNT(*) as total_products,'', nl,
      ''                SUM(CASE WHEN cover_days <= '', str_int cover_days, '' THEN 1 ELSE 0 END) as products_below_threshold'', nl,
      ''            FROM tbl_available_stock_anom'', nl,
      ''            GROUP BY warehouse_location'', nl,
      ''            HAVING SUM(CASE WHEN cover_days <= '', str_int cover_days, '' THEN 1 ELSE 0 END) > 0'', nl,
      ''            ORDER BY products_below_threshold DESC'', nl,
      ''        '']"

definition top_products_query :: string where
  "top_products_query = concat
     [nl,
      ''            SELECT TOP 10'', nl,
      ''                Product_Code,'', nl,
      ''                AVG(MTDSalesRate) As CurrentSalesRatePerDay,'', nl,
      ''                AVG(M1ForecastRate) As CurrentForecastRatePerDay,'', nl,
      ''                AVG(M2Forecast/26) AS NextMonthsForecastRatePerDay'', nl,
      ''            FROM '', nl,
      ''                tbl_sales_forecast'', nl,
      ''            GROUP BY '', nl,
      ''                Product_Code'', nl,
      ''            ORDER BY '', nl,
      ''                NextMonthsForecastRatePerDay DESC'', nl,
      ''        '']"

definition overselling_query :: string where
  "overselling_query = concat
     [nl,
      ''            SELECT '', nl,
      ''                Product_Code,'', nl,
      ''                AVG(MTDSalesRate) AS TotalSalesPerDay,'', nl,
      ''                AVG(M1ForecastRate) AS TotalForecastRatePerDay,'', nl,
      ''                AVG(ForecastError) AS SalesDifference'', nl,
      ''            FROM tbl_sales_forecast'', nl,
      ''            WHERE Selling_Status = '', sq, ''Overselling'', sq, nl,
      ''            GROUP BY Product_Code'', nl,
      ''            ORDER BY SalesDifference ASC'', nl,
      ''        '']"

definition underselling_query :: string where
  "underselling_query = concat
     [nl,
      ''            SELECT '', nl,
      ''                Product_Code,'', nl,
      ''                AVG(MTDSalesRate) AS TotalSalesPerDay,'', nl,
      ''                AVG(M1ForecastRate) AS TotalForecastRatePerDay,'', nl,
      ''                AVG(ForecastError) AS SalesDifference'', nl,
      ''            FROM tbl_sales_forecast'', nl,
      ''            WHERE Selling_Status = '', sq, ''Underselling'', sq, nl,
      ''            GROUP BY Product_Code'', nl,
      ''            ORDER BY TotalSalesPerDay DESC'', nl,
      ''        '']"

definition sales_rate_query :: "int \<Rightarrow> string" where
  "sales_rate_query product_code = concat
     [nl,
      ''            SELECT '', nl,
      ''                warehouse_location,'', nl,
      ''                AVG(MTDSalesRate) AS Sales'', nl,
      ''            FROM'', nl,
      ''                tbl_sales_forecast'', nl,
      ''            WHERE'', nl,
      ''                Product_Code = '', str_int product_code, nl,
      ''            GROUP BY'', nl,
      ''                warehouse_location'', nl,
      ''            ORDER BY'', nl,
      ''                Sales DESC'', nl,
      ''        '']"

definition forecast_vs_actual_query :: "int \<Rightarrow> string" where
  "forecast_vs_actual_query product_code = concat
     [nl,
      ''          SELECT'', nl,
      ''                warehouse_location,'', nl,
      ''                product_code,'', nl,
      ''                AVG(M1ForecastRate) AS Total_Forecast,'', nl,
      ''                AVG(MTDSalesRate) AS Total_Actual_Sales,'', nl,
      ''                AVG(ForecastError) AS Total_Forecast_Error'', nl,
      ''            FROM'', nl,
      ''                tbl_sales_forecast'', nl,
      ''            WHERE   '', nl,
      ''                product_code = '', str_int product_code, nl,
      ''            GROUP BY'', nl,
      ''                warehouse_location, product_code'', nl,
      ''            ORDER BY'', nl,
      ''                Total_Forecast DESC'', nl,
      ''        '']"

section \<open>Row mappers\<close>

subsection \<open>Stocked-out and discontinued products: the list of product codes\<close>

text \<open>
  \<^verbatim>\<open>product_codes = row[2].split(",") if row[2] else []\<close>
  \<^verbatim>\<open>product_codes = [code.strip() for code in product_codes if code.strip()]\<close>
\<close>

definition product_codes :: "string option \<Rightarrow> string list" where
  "product_codes cell =
     (let pieces = (case cell of
                      Some s \<Rightarrow> if text_truthy cell then split_on (CHR '','') s else []
                    | None \<Rightarrow> [])
      in [strip code. code \<leftarrow> pieces, strip code \<noteq> []])"

type_synonym codes_row = "pyval \<times> pyval \<times> string option"

definition stockout_location_data :: "codes_row \<Rightarrow> pyval" where
  "stockout_location_data row =
     (case row of (c0, c1, c2) \<Rightarrow>
        PDict [(''Warehouse location'', c0),
               (''Total stocked out products'', c1),
               (''Product codes'', PList (map PStr (product_codes c2)))])"

definition discontinued_data :: "codes_row \<Rightarrow> pyval" where
  "discontinued_data row =
     (case row of (c0, c1, c2) \<Rightarrow>
        PDict [(''Warehouse Location'', c0),
               (''Discontinued Product Count'', c1),
               (''Discontinued Product Codes'', PList (map PStr (product_codes c2)))])"

subsection \<open>Overstocked and understocked items\<close>

type_synonym stock_row = "pyval \<times> pyval \<times> pyval \<times> pyval \<times> pyval \<times> pyval"

definition stock_item :: "stock_row \<Rightarrow> pyval" where
  "stock_item row =
     (case row of (c0, c1, c2, c3, c4, c5) \<Rightarrow>
        PDict [(''Product Code'', c0),
               (''Warehouse Location'', c1),
               (''Cover Days'', c2),
               (''Current Stock'', c3),
               (''Ideal Stock'', c4),
               (''Stock Difference'', c5)])"

subsection \<open>Stock distribution summary\<close>

type_synonym stock_levels_row = "string option \<times> num option \<times> num option \<times> num option"

text \<open>\<^verbatim>\<open>max(0, int(row[i])) if row[i] is not None else 0\<close>\<close>

definition count_of :: "num option \<Rightarrow> int" where
  "count_of cell = (case cell of None \<Rightarrow> 0 | Some v \<Rightarrow> max 0 (py_int_num v))"

text \<open>\<^verbatim>\<open>str(row[0]) if row[0] else "Unknown Location"\<close>\<close>

definition warehouse_of :: "string option \<Rightarrow> string" where
  "warehouse_of cell =
     (case cell of
        Some s \<Rightarrow> if text_truthy cell then s else ''Unknown Location''
      | None \<Rightarrow> ''Unknown Location'')"

definition stock_levels_record :: "stock_levels_row \<Rightarrow> pyval" where
  "stock_levels_record row =
     (case row of (c0, c1, c2, c3) \<Rightarrow>
        let warehouse = warehouse_of c0;
            partially_stocked = count_of c1;
            fully_stocked = count_of c2;
            completely_stockout = count_of c3;
            total_items = partially_stocked + fully_stocked + completely_stockout
        in PDict [(''Warehouse Location'', PStr warehouse),
                  (''Partially Stocked'', PInt partially_stocked),
                  (''Fully Stocked'', PInt fully_stocked),
                  (''Stocked Out'', PInt completely_stockout),
                  (''Total Items'', PInt total_items)])"

text \<open>
  The loop over the rows, with its four variables as the state:
  \<^verbatim>\<open>stock_levels_data\<close>, \<^verbatim>\<open>total_partially_stocked\<close>, \<^verbatim>\<open>total_fully_stocked\<close> and
  \<^verbatim>\<open>total_completely_stockout\<close>.
\<close>

fun stock_levels_loop ::
  "stock_levels_row list \<Rightarrow> pyval list \<times> int \<times> int \<times> int \<Rightarrow> pyval list \<times> int \<times> int \<times> int"
where
  "stock_levels_loop [] st = st"
| "stock_levels_loop (row # rows) (stock_levels_data, total_partially_stocked,
       total_fully_stocked, total_completely_stockout) =
     (case row of (c0, c1, c2, c3) \<Rightarrow>
        stock_levels_loop rows
          (stock_levels_data @ [stock_levels_record row],
           total_partially_stocked + count_of c1,
           total_fully_stocked + count_of c2,
           total_completely_stockout + count_of c3))"

subsection \<open>Variance analysis\<close>

text \<open>
  \<^verbatim>\<open>process_variance_data\<close>. The guard branch (\<^verbatim>\<open>else 0\<close>) is integer arithmetic and is
  exact here. On the other branch the source computes with IEEE doubles; the model
  computes \<open>(current - ideal) / ideal * 100\<close>, the rounding to one decimal (ties to even)
  and the decimal rendering on the exact rationals, which agrees with the source
  wherever every intermediate value is exactly representable and the result is not a
  negative zero.
\<close>

type_synonym variance_row =
  "pyval \<times> pyval \<times> pyval \<times> pyval \<times> num option \<times> num option"

fun num_val :: "num \<Rightarrow> rat" where
  "num_val (NInt n) = of_int n"
| "num_val (NFloat x) = x"

fun type_name :: "num \<Rightarrow> string" where
  "type_name (NInt n) = ''int''"
| "type_name (NFloat x) = ''float''"

fun of_numcell :: "num option \<Rightarrow> pyval" where
  "of_numcell None = PNone"
| "of_numcell (Some v) = of_num v"

definition round_half_even :: "rat \<Rightarrow> int" where
  "round_half_even x =
     (let f = \<lfloor>x\<rfloor>; d = x - of_int f
      in if d < 1 / 2 then f else if 1 / 2 < d then f + 1 else if even f then f else f + 1)"

text \<open>\<^verbatim>\<open>round(v, 1)\<close>: an \<^verbatim>\<open>int\<close> stays the same \<^verbatim>\<open>int\<close>; a \<^verbatim>\<open>float\<close> is rounded to one
  decimal.\<close>

fun py_round1 :: "num \<Rightarrow> num" where
  "py_round1 (NInt n) = NInt n"
| "py_round1 (NFloat x) = NFloat (of_int (round_half_even (x * 10)) / 10)"

text \<open>The text of a float that has at most one decimal: sign, integer part, point,
  one digit.\<close>

definition repr_float1 :: "rat \<Rightarrow> string" where
  "repr_float1 x =
     (let k = nat \<lfloor>\<bar>x\<bar> * 10\<rfloor>
      in (if x < 0 then ''-'' else []) @ str_nat (k div 10) @ ''.'' @ str_nat (k mod 10))"

fun str_num :: "num \<Rightarrow> string" where
  "str_num (NInt n) = str_int n"
| "str_num (NFloat x) = repr_float1 x"

definition variance_item :: "variance_row \<Rightarrow> exn + pyval" where
  "variance_item row =
     (case row of (c0, c1, c2, c3, current_stock, ideal_stock) \<Rightarrow>
        let item = (\<lambda>variance_percentage.
              PDict [(''Warehouse Location'', c0),
                     (''Product Code'', c1),
                     (''Product Category'', c2),
                     (''Stock Difference'', c3),
                     (''Current Stock'', of_numcell current_stock),
                     (''Ideal Stock Requirement'', of_numcell ideal_stock),
                     (''Variancy'', PStr (str_num (py_round1 variance_percentage) @ ''%''))])
        in (case ideal_stock of
              None \<Rightarrow>
                Inl (TypeError (concat [sq, ''>'', sq, '' not supported between instances of '',
                                        sq, ''NoneType'', sq, '' and '', sq, ''int'', sq]))
            | Some ideal \<Rightarrow>
                if 0 < num_val ideal then
                  (case current_stock of
                     None \<Rightarrow>
                       Inl (TypeError (concat [''unsupported operand type(s) for -: '',
                                               sq, ''NoneType'', sq, '' and '', sq, type_name ideal, sq]))
                   | Some current \<Rightarrow>
                       Inr (item (NFloat ((num_val current - num_val ideal) / num_val ideal * 100))))
                else Inr (item (NInt 0))))"

definition process_variance_data :: "variance_row list \<Rightarrow> exn + pyval list" where
  "process_variance_data results = map_rows variance_item results"

subsection \<open>Expected stock requirements\<close>

type_synonym expected_row = "pyval \<times> num option \<times> num option"

text \<open>\<^verbatim>\<open>int(row[i])\<close>: \<^verbatim>\<open>TypeError\<close> on NULL.\<close>

definition int_of_cell :: "num option \<Rightarrow> exn + int" where
  "int_of_cell cell =
     (case cell of
        None \<Rightarrow>
          Inl (TypeError (concat [''int() argument must be a string, a bytes-like object '',
                                  ''or a real number, not '', sq, ''NoneType'', sq]))
      | Some v \<Rightarrow> Inr (py_int_num v))"

definition expected_stock_level :: "expected_row \<Rightarrow> exn + pyval" where
  "expected_stock_level row =
     (case row of (c0, c1, c2) \<Rightarrow>
        (case int_of_cell c1 of
           Inl e \<Rightarrow> Inl e
         | Inr required \<Rightarrow>
             (case int_of_cell c2 of
                Inl e \<Rightarrow> Inl e
              | Inr count \<Rightarrow>
                  Inr (PDict [(''Product Code'', c0),
                              (''Required Stock'', PInt required),
                              (''Warehouse Location Count'', PInt count)]))))"

subsection \<open>Pass-through rows of the remaining inventory reports\<close>

definition cover_days_bucket :: "pyval \<times> pyval \<Rightarrow> pyval" where
  "cover_days_bucket row =
     (case row of (c0, c1) \<Rightarrow>
        PDict [(''Cover Days Range'', c0),
               (''Product Code and Location pair count'', c1)])"

definition inventory_level_item :: "pyval \<times> pyval \<times> pyval \<Rightarrow> pyval" where
  "inventory_level_item row =
     (case row of (c0, c1, c2) \<Rightarrow>
        PDict [(''Warehouse Location'', c0),
               (''Product Code'', c1),
               (''Available stock at hand'', c2)])"

definition stock_estimate :: "pyval \<times> pyval \<times> pyval \<Rightarrow> pyval" where
  "stock_estimate row =
     (case row of (c0, c1, c2) \<Rightarrow>
        PDict [(''Warehouse Location'', c0),
               (''Total Products'', c1),
               (''Count of Products under given days'', c2)])"

subsection \<open>Sales metrics\<close>

text \<open>\<^verbatim>\<open>abs(int(float(row[i]))) if row[i] else 0.0\<close>\<close>

definition rate_field :: "num option \<Rightarrow> exn + pyval" where
  "rate_field cell =
     (case cell of
        None \<Rightarrow> Inr (PFloat 0)
      | Some v \<Rightarrow>
          if num_truthy cell then
            (case py_float v of Inl e \<Rightarrow> Inl e | Inr x \<Rightarrow> Inr (PInt \<bar>trunc x\<bar>))
          else Inr (PFloat 0))"

text \<open>\<^verbatim>\<open>abs(int(row[1])) if row[1] else 0.0\<close> (no \<^verbatim>\<open>float\<close> in between).\<close>

definition sales_rate_field :: "num option \<Rightarrow> exn + pyval" where
  "sales_rate_field cell =
     (case cell of
        None \<Rightarrow> Inr (PFloat 0)
      | Some v \<Rightarrow> if num_truthy cell then Inr (PInt \<bar>py_int_num v\<bar>) else Inr (PFloat 0))"

type_synonym rates_row = "pyval \<times> num option \<times> num option \<times> num option"

definition projected_demand_record :: "rates_row \<Rightarrow> exn + pyval" where
  "projected_demand_record row =
     (case row of (c0, c1, c2, c3) \<Rightarrow>
        (case rate_field c1 of Inl e \<Rightarrow> Inl e | Inr f1 \<Rightarrow>
        (case rate_field c2 of Inl e \<Rightarrow> Inl e | Inr f2 \<Rightarrow>
        (case rate_field c3 of Inl e \<Rightarrow> Inl e | Inr f3 \<Rightarrow>
           Inr (PDict [(''Product Code'', c0),
                       (''Current Month Sales Rate'', f1),
                       (''Current Month Forecast Rate'', f2),
                       (''Next Month Forecast Rate'', f3)])))))"

text \<open>The overselling and underselling records name the forecast (\<^verbatim>\<open>row[2]\<close>) before the
  sales (\<^verbatim>\<open>row[1]\<close>), and Python evaluates the dictionary display in that order.\<close>

definition selling_record :: "string \<Rightarrow> rates_row \<Rightarrow> exn + pyval" where
  "selling_record diff_key row =
     (case row of (c0, c1, c2, c3) \<Rightarrow>
        (case rate_field c2 of Inl e \<Rightarrow> Inl e | Inr f2 \<Rightarrow>
        (case rate_field c1 of Inl e \<Rightarrow> Inl e | Inr f1 \<Rightarrow>
        (case rate_field c3 of Inl e \<Rightarrow> Inl e | Inr f3 \<Rightarrow>
           Inr (PDict [(''Product Code'', c0),
                       (''Total Forecast per day'', f2),
                       (''Total Sales per day'', f1),
                       (diff_key, f3)])))))"

definition sales_rate_record :: "pyval \<times> num option \<Rightarrow> exn + pyval" where
  "sales_rate_record row =
     (case row of (c0, c1) \<Rightarrow>
        (case sales_rate_field c1 of Inl e \<Rightarrow> Inl e | Inr f1 \<Rightarrow>
           Inr (PDict [(''Warehouse Location'', c0),
                       (''Sales rate per day'', f1)])))"

type_synonym forecast_row = "pyval \<times> pyval \<times> num option \<times> num option \<times> num option"

definition forecast_record :: "forecast_row \<Rightarrow> exn + pyval" where
  "forecast_record row =
     (case row of (c0, c1, c2, c3, c4) \<Rightarrow>
        (case rate_field c2 of Inl e \<Rightarrow> Inl e | Inr f2 \<Rightarrow>
        (case rate_field c3 of Inl e \<Rightarrow> Inl e | Inr f3 \<Rightarrow>
        (case rate_field c4 of Inl e \<Rightarrow> Inl e | Inr f4 \<Rightarrow>
           Inr (PDict [(''Warehouse Location'', c0),
                       (''Product Code'', c1),
                       (''Average Forecast Rate'', f2),
                       (''Average Sales Rate'', f3),
                       (''Average Forecast Error'', f4)])))))"

section \<open>Inventory route handlers\<close>

definition inv_categories_query :: string where
  "inv_categories_query = ''SELECT DISTINCT product_category FROM tbl_available_stock_anom''"

definition inv_locations_query :: string where
  "inv_locations_query = ''SELECT DISTINCT warehouse_location FROM tbl_available_stock_anom''"

text \<open>The row of the two one-column queries is its single value: \<^verbatim>\<open>[row[0] for row in result]\<close>
  is the list of the rows.\<close>

definition inv_unique_product_categories :: "pyval executor \<Rightarrow> outcome" where
  "inv_unique_product_categories exec =
     (let query = inv_categories_query
      in case exec query of
           Inl e \<Rightarrow>
             ((status_message 500 (''Error retrieving product categories: '' @ str_exn e), 500),
              [query])
         | Inr result \<Rightarrow>
             if result \<noteq> [] then ((PList result, 200), [query])
             else ((status_message 404 ''No product categories found'', 404), [query]))"

definition inv_unique_warehouse_locations :: "pyval executor \<Rightarrow> outcome" where
  "inv_unique_warehouse_locations exec =
     (let query = inv_locations_query
      in case exec query of
           Inl e \<Rightarrow>
             ((status_message 500 (''Error retrieving warehouse locations: '' @ str_exn e), 500),
              [query])
         | Inr result \<Rightarrow>
             if result \<noteq> [] then ((PList result, 200), [query])
             else ((status_message 404 ''No warehouse locations found'', 404), [query]))"

definition stocked_out_products_all_locations :: "codes_row executor \<Rightarrow> outcome" where
  "stocked_out_products_all_locations exec =
     (let query = stocked_out_query
      in case exec query of
           Inl e \<Rightarrow>
             ((status_message 500 (''Error retrieving stocked out products: '' @ str_exn e), 500),
              [query])
         | Inr result \<Rightarrow>
             if result \<noteq> [] then ((PList (map stockout_location_data result), 200), [query])
             else ((status_message 404 ''No stocked out products found'', 404), [query]))"

definition overstocked_products_by_location_and_product :: "stock_row executor \<Rightarrow> outcome" where
  "overstocked_products_by_location_and_product exec =
     (let query = overstocked_query
      in case exec query of
           Inl e \<Rightarrow>
             ((status_message 500 (''Error retrieving overstocked items: '' @ str_exn e), 500),
              [query])
         | Inr result \<Rightarrow>
             if result \<noteq> [] then ((PList (map stock_item result), 200), [query])
             else ((status_message 404 ''No overstocked items found.'', 404), [query]))"

definition understocked_products_by_location_and_product :: "stock_row executor \<Rightarrow> outcome" where
  "understocked_products_by_location_and_product exec =
     (let query = understocked_query
      in case exec query of
           Inl e \<Rightarrow>
             ((PDict [(''error'', PStr (''Failed to retrieve understocked products: '' @ str_exn e)),
                      (''status'', PStr ''error'')], 500),
              [query])
         | Inr result \<Rightarrow>
             if result \<noteq> [] then ((PList (map stock_item result), 200), [query])
             else ((PDict [(''message'', PStr ''No understocked items found'')], 404), [query]))"

definition stock_distribution_and_status_across_all_locations ::
  "stock_levels_row executor \<Rightarrow> outcome" where
  "stock_distribution_and_status_across_all_locations exec =
     (case exec stock_levels_query of
        Inl e \<Rightarrow>
          ((PDict [(''error'', PStr (''Error retrieving stock levels: '' @ str_exn e)),
                   (''status'', PStr ''error''),
                   (''data'', PNone)], 500),
           [stock_levels_query])
      | Inr results \<Rightarrow>
          if results = [] then
            ((PDict [(''message'', PStr ''No stock level data found''),
                     (''status'', PStr ''empty''),
                     (''data'', PList [])], 404),
             [stock_levels_query])
          else
            (case stock_levels_loop results ([], 0, 0, 0) of
               (stock_levels_data, total_partially_stocked, total_fully_stocked,
                  total_completely_stockout) \<Rightarrow>
                 ((PList stock_levels_data, 200), [stock_levels_query])))"

definition inventory_variance_analysis_across_locations :: "variance_row executor \<Rightarrow> outcome" where
  "inventory_variance_analysis_across_locations exec =
     (let failed = (\<lambda>e. (status_message 500
                            (''Error processing stock variance data: '' @ str_exn e), 500))
      in case exec positive_query of
           Inl e \<Rightarrow> (failed e, [positive_query])
         | Inr positive_results \<Rightarrow>
             (case exec negative_query of
                Inl e \<Rightarrow> (failed e, [positive_query, negative_query])
              | Inr negative_results \<Rightarrow>
                  (case process_variance_data positive_results of
                     Inl e \<Rightarrow> (failed e, [positive_query, negative_query])
                   | Inr positive_variance_data \<Rightarrow>
                       (case process_variance_data negative_results of
                          Inl e \<Rightarrow> (failed e, [positive_query, negative_query])
                        | Inr negative_variance_data \<Rightarrow>
                            ((PDict [(''positive_variance_data'', PList positive_variance_data),
                                     (''negative_variance_data'', PList negative_variance_data)],
                              200),
                             [positive_query, negative_query])))))"

definition expected_stock_requirements_for_products_till_month_ends ::
  "expected_row executor \<Rightarrow> outcome" where
  "expected_stock_requirements_for_products_till_month_ends exec =
     (let query = expected_stock_query;
          failed = (\<lambda>e. (status_message 500
                            (''Error retrieving expected stock levels: '' @ str_exn e), 500))
      in case exec query of
           Inl e \<Rightarrow> (failed e, [query])
         | Inr result \<Rightarrow>
             if result = [] then ((status_message 404 ''No stock level data found'', 404), [query])
             else (case map_rows expected_stock_level result of
                     Inl e \<Rightarrow> (failed e, [query])
                   | Inr expected_stock_levels \<Rightarrow> ((PList expected_stock_levels, 200), [query])))"

definition cover_days_summary :: "(pyval \<times> pyval) executor \<Rightarrow> outcome" where
  "cover_days_summary exec =
     (let query = cover_days_summary_query
      in case exec query of
           Inl e \<Rightarrow>
             ((status_message 500 (''Error retrieving cover days distribution: '' @ str_exn e), 500),
              [query])
         | Inr results \<Rightarrow>
             if results = [] then
               ((status_message 404 ''No cover days distribution data found'', 404), [query])
             else ((PList (map cover_days_bucket results), 200), [query]))"

definition discontinued_products_across_all_warehouse_locations ::
  "codes_row executor \<Rightarrow> outcome" where
  "discontinued_products_across_all_warehouse_locations exec =
     (let query = discontinued_query
      in case exec query of
           Inl e \<Rightarrow>
             ((status_message 500
                 (''Error retrieving discontinued products data: '' @ str_exn e), 500),
              [query])
         | Inr results \<Rightarrow>
             if results \<noteq> [] then ((PList (map discontinued_data results), 200), [query])
             else ((status_message 404 ''No discontinued products data found'', 404), [query]))"

definition get_inventory_level_for_products_and_locations ::
  "args \<Rightarrow> (pyval \<times> pyval \<times> pyval) executor \<Rightarrow> outcome" where
  "get_inventory_level_for_products_and_locations request_args exec =
     (let location = strip (arg_get request_args ''location'');
          product_code = strip (arg_get request_args ''product_code'')
      in if location = [] \<and> product_code = [] then
           ((status_message 400 ''At least one parameter (location or product_code) is required'',
             400), [])
         else
           let conditions =
                 (if location \<noteq> [] then [concat [''warehouse_location = '', sq, location, sq]]
                  else [])
                 @ (if product_code \<noteq> [] then [concat [''product_code = '', sq, product_code, sq]]
                    else []);
               where_clause = join '' AND '' conditions;
               query = inventory_level_query where_clause
           in case exec query of
                Inl e \<Rightarrow>
                  ((status_message 500
                      (''An error occurred while retrieving inventory data: '' @ str_exn e), 500),
                   [query])
              | Inr results \<Rightarrow>
                  if results \<noteq> [] then ((PList (map inventory_level_item results), 200), [query])
                  else
                    let search_criteria =
                          (if location \<noteq> [] then [''location: '' @ location] else [])
                          @ (if product_code \<noteq> [] then [''product code: '' @ product_code]
                             else [])
                    in ((status_message 404
                           (''No inventory data found for '' @ join '' and '' search_criteria),
                         404), [query]))"

definition estimated_stockout_of_products_by_cover_days ::
  "args \<Rightarrow> (pyval \<times> pyval \<times> pyval) executor \<Rightarrow> outcome" where
  "estimated_stockout_of_products_by_cover_days request_args exec =
     (let cover_days = strip (arg_get request_args ''cover_days'')
      in if cover_days = [] then
           ((status_message 400 ''Cover days parameter is required'', 400), [])
         else
           (case py_int cover_days of
              None \<Rightarrow>
                ((status_message 400 ''Invalid cover_days. Must be a valid number.'', 400), [])
            | Some cover_days \<Rightarrow>
                if cover_days \<le> 0 then
                  ((status_message 400 ''Invalid cover_days. Must be a positive integer.'', 400),
                   [])
                else
                  let query = estimated_stockout_query cover_days
                  in (case exec query of
                        Inl e \<Rightarrow>
                          ((status_message 500
                              (''An error occurred while retrieving stock estimates: ''
                                 @ str_exn e), 500),
                           [query])
                      | Inr result \<Rightarrow>
                          if result \<noteq> [] then ((PList (map stock_estimate result), 200), [query])
                          else
                            ((status_message 404 ''No estimates found for the given criteria'',
                              404), [query]))))"

section \<open>Sales route handlers\<close>

definition sales_categories_query :: string where
  "sales_categories_query = ''SELECT DISTINCT product_category FROM tbl_sales_forecast''"

definition sales_locations_query :: string where
  "sales_locations_query = ''SELECT DISTINCT warehouse_location FROM tbl_sales_forecast''"

definition sales_unique_product_categories :: "pyval executor \<Rightarrow> outcome" where
  "sales_unique_product_categories exec =
     (let query = sales_categories_query
      in case exec query of
           Inl e \<Rightarrow>
             ((status_message 500 (''Error retrieving product categories: '' @ str_exn e), 500),
              [query])
         | Inr result \<Rightarrow>
             if result \<noteq> [] then ((PList result, 200), [query])
             else ((status_message 404 ''No product categories found'', 404), [query]))"

definition sales_unique_warehouse_locations :: "pyval executor \<Rightarrow> outcome" where
  "sales_unique_warehouse_locations exec =
     (let query = sales_locations_query
      in case exec query of
           Inl e \<Rightarrow>
             ((status_message 500 (''Error retrieving warehouse locations: '' @ str_exn e), 500),
              [query])
         | Inr result \<Rightarrow>
             if result \<noteq> [] then ((PList result, 200), [query])
             else ((status_message 404 ''No warehouse locations found'', 404), [query]))"

definition top_products_and_their_projected_demand :: "rates_row executor \<Rightarrow> outcome" where
  "top_products_and_their_projected_demand exec =
     (let query = top_products_query
      in case exec query of
           Inl e \<Rightarrow> ((error_message (str_exn e), 500), [query])
         | Inr results \<Rightarrow>
             (case map_rows projected_demand_record results of
                Inl e \<Rightarrow> ((error_message (str_exn e), 500), [query])
              | Inr response \<Rightarrow> ((PList response, 200), [query])))"

definition overselling_products_based_on_sales :: "rates_row executor \<Rightarrow> outcome" where
  "overselling_products_based_on_sales exec =
     (let query = overselling_query
      in case exec query of
           Inl e \<Rightarrow> ((error_message (str_exn e), 500), [query])
         | Inr results \<Rightarrow>
             (case map_rows (selling_record ''Oversold per day'') results of
                Inl e \<Rightarrow> ((error_message (str_exn e), 500), [query])
              | Inr response \<Rightarrow>
                  ((PDict [(''message'', PStr ''All overselling products across all locations.''),
                           (''data'', PList response)], 200), [query])))"

definition underselling_products_based_on_sales :: "rates_row executor \<Rightarrow> outcome" where
  "underselling_products_based_on_sales exec =
     (let query = underselling_query
      in case exec query of
           Inl e \<Rightarrow> ((error_message (str_exn e), 500), [query])
         | Inr results \<Rightarrow>
             (case map_rows (selling_record ''Undersold per day'') results of
                Inl e \<Rightarrow> ((error_message (str_exn e), 500), [query])
              | Inr response \<Rightarrow>
                  ((PDict [(''message'', PStr ''All underselling products across all locations.''),
                           (''data'', PList response)], 200), [query])))"

definition sales_rate_by_product_and_location ::
  "args \<Rightarrow> (pyval \<times> num option) executor \<Rightarrow> outcome" where
  "sales_rate_by_product_and_location request_args exec =
     (let product_code = strip (arg_get request_args ''product_code'')
      in if product_code = [] then ((error_message ''Product code is required'', 400), [])
         else
           (case py_int product_code of
              None \<Rightarrow> ((error_message ''Product code must be an integer'', 400), [])
            | Some product_code \<Rightarrow>
                let query = sales_rate_query product_code
                in (case exec query of
                      Inl e \<Rightarrow> ((error_message (str_exn e), 500), [query])
                    | Inr results \<Rightarrow>
                        (case map_rows sales_rate_record results of
                           Inl e \<Rightarrow> ((error_message (str_exn e), 500), [query])
                         | Inr response \<Rightarrow> ((PList response, 200), [query])))))"

definition forecast_sales_vs_actual_sales_for_products_and_locations ::
  "args \<Rightarrow> forecast_row executor \<Rightarrow> outcome" where
  "forecast_sales_vs_actual_sales_for_products_and_locations request_args exec =
     (let product_code = strip (arg_get request_args ''product_code'')
      in if product_code = [] then ((error_message ''Product code is required'', 400), [])
         else
           (case py_int product_code of
              None \<Rightarrow> ((error_message ''Product code must be an integer'', 400), [])
            | Some product_code \<Rightarrow>
                let query = forecast_vs_actual_query product_code
                in (case exec query of
                      Inl e \<Rightarrow> ((error_message (str_exn e), 500), [query])
                    | Inr results \<Rightarrow>
                        (case map_rows forecast_record results of
                           Inl e \<Rightarrow> ((error_message (str_exn e), 500), [query])
                         | Inr response \<Rightarrow> ((PList response, 200), [query])))))"

section \<open>Notions used in the statements\<close>

text \<open>A string with no whitespace at either end (the empty string included).\<close>

definition trimmed :: "string \<Rightarrow> bool" where
  "trimmed s \<longleftrightarrow> s = [] \<or> (\<not> py_isspace (hd s) \<and> \<not> py_isspace (last s))"

text \<open>A numeric cell whose conversion to \<^verbatim>\<open>float\<close> loses nothing: NULL, a float, or an
  integer of magnitude at most \<open>2 ^ 53\<close>.\<close>

definition float_exact :: "num option \<Rightarrow> bool" where
  "float_exact cell =
     (case cell of None \<Rightarrow> True | Some (NFloat x) \<Rightarrow> True | Some (NInt n) \<Rightarrow> \<bar>n\<bar> \<le> 2 ^ 53)"

text \<open>The field the sales reports are described to carry for a metric: \<^verbatim>\<open>0.0\<close> for NULL
  and for zero, otherwise the magnitude of the truncated value, as an integer.\<close>

definition magnitude_field :: "num option \<Rightarrow> pyval" where
  "magnitude_field cell =
     (case cell of
        None \<Rightarrow> PFloat 0
      | Some v \<Rightarrow> if num_val v = 0 then PFloat 0 else PInt \<bar>py_int_num v\<bar>)"

text \<open>The relation between a metric cell and its mapped field: the float \<^verbatim>\<open>0.0\<close> for a
  falsy cell, an integer for any other.\<close>

definition zero_or_int :: "num option \<Rightarrow> pyval \<Rightarrow> bool" where
  "zero_or_int cell field = (if num_truthy cell then is_py_int field else field = PFloat 0)"

text \<open>One piece of a comma-joined code list: the padding before the code, the code, the
  padding after it. A piece is well formed when both paddings are whitespace and the code
  is trimmed and has no comma; its code may be empty.\<close>

type_synonym piece = "string \<times> string \<times> string"

definition padded :: "piece \<Rightarrow> string" where
  "padded t = (case t of (l, c, r) \<Rightarrow> l @ c @ r)"

definition code_of :: "piece \<Rightarrow> string" where
  "code_of t = (case t of (l, c, r) \<Rightarrow> c)"

definition good_piece :: "piece \<Rightarrow> bool" where
  "good_piece t =
     (case t of (l, c, r) \<Rightarrow>
        (\<forall>x\<in>set l. py_isspace x) \<and> (\<forall>x\<in>set r. py_isspace x) \<and> trimmed c
        \<and> CHR '','' \<notin> set c)"

text \<open>The three count columns of a stock-levels row.\<close>

definition partially_of :: "stock_levels_row \<Rightarrow> num option" where
  "partially_of row = (case row of (c0, c1, c2, c3) \<Rightarrow> c1)"

definition fully_of :: "stock_levels_row \<Rightarrow> num option" where
  "fully_of row = (case row of (c0, c1, c2, c3) \<Rightarrow> c2)"

definition stockout_of :: "stock_levels_row \<Rightarrow> num option" where
  "stockout_of row = (case row of (c0, c1, c2, c3) \<Rightarrow> c3)"

text \<open>A query parameter that is absent, or empty once trimmed.\<close>

definition missing :: "args \<Rightarrow> string \<Rightarrow> bool" where
  "missing a k = (case a k of None \<Rightarrow> True | Some v \<Rightarrow> strip v = [])"

section \<open>Product codes of the stocked-out report\<close>



lemma split_on_no_sep: "c \<notin> set p \<Longrightarrow> split_on c (p @ c # s) = p # split_on c s"
  by (induction p) (auto split: list.splits)

lemma split_on_no_sep_end: "c \<notin> set p \<Longrightarrow> split_on c p = [p]"
  by (induction p) (auto split: list.splits)

lemma split_on_join:
  "ps \<noteq> [] \<Longrightarrow> \<forall>p\<in>set ps. c \<notin> set p \<Longrightarrow> split_on c (join [c] ps) = ps"
  by (induction "[c]" ps rule: join.induct) (auto simp: split_on_no_sep split_on_no_sep_end)

lemma lstrip_pad: "\<forall>x\<in>set l. py_isspace x \<Longrightarrow> lstrip (l @ s) = lstrip s"
  by (simp add: lstrip_def dropWhile_append)

lemma rstrip_pad: "\<forall>x\<in>set r. py_isspace x \<Longrightarrow> rstrip (s @ r) = rstrip s"
  by (simp add: rstrip_def dropWhile_append)

lemma lstrip_all_space: "\<forall>x\<in>set r. py_isspace x \<Longrightarrow> lstrip r = []"
  by (simp add: lstrip_def)

lemma rstrip_Nil: "rstrip [] = []"
  by (simp add: rstrip_def)

lemma lstrip_keep: "s \<noteq> [] \<Longrightarrow> \<not> py_isspace (hd s) \<Longrightarrow> lstrip (s @ r) = s @ r"
  by (cases s) (simp_all add: lstrip_def)

lemma rstrip_keep: "s \<noteq> [] \<Longrightarrow> \<not> py_isspace (last s) \<Longrightarrow> rstrip s = s"
  by (cases s rule: rev_cases) (simp_all add: rstrip_def)

lemma strip_padded:
  assumes "\<forall>x\<in>set l. py_isspace x" "\<forall>x\<in>set r. py_isspace x" "trimmed s"
  shows "strip (l @ s @ r) = s"
proof (cases "s = []")
  case True
  then show ?thesis using assms
    by (simp add: strip_def lstrip_pad lstrip_all_space rstrip_Nil)
next
  case False
  then have "lstrip (l @ s @ r) = s @ r"
    using assms by (simp add: lstrip_pad lstrip_keep trimmed_def)
  then show ?thesis using assms False
    by (simp add: strip_def rstrip_pad rstrip_keep trimmed_def)
qed

lemma comma_not_space: "py_isspace x \<Longrightarrow> x \<noteq> CHR '',''"
  by (auto simp: py_isspace_def)

lemma strip_padded_piece: "good_piece t \<Longrightarrow> strip (padded t) = code_of t"
  by (cases t) (simp add: good_piece_def padded_def code_of_def strip_padded)

lemma padded_no_comma: "good_piece t \<Longrightarrow> CHR '','' \<notin> set (padded t)"
  by (cases t) (auto simp: good_piece_def padded_def dest: comma_not_space)

lemma kept_codes:
  assumes "\<forall>t\<in>set ts. good_piece t"
  shows "[strip code. code \<leftarrow> map padded ts, strip code \<noteq> []]
         = filter (\<lambda>c. c \<noteq> []) (map code_of ts)"
  using assms by (induction ts) (simp_all add: strip_padded_piece)

lemma join_Nil: "join sep ps = [] \<Longrightarrow> sep \<noteq> [] \<Longrightarrow> \<forall>p\<in>set ps. p = []"
  by (induction sep ps rule: join.induct) auto

lemma product_codes_join:
  assumes "\<forall>t\<in>set ts. good_piece t"
  shows "product_codes (Some (join '','' (map padded ts)))
         = filter (\<lambda>c. c \<noteq> []) (map code_of ts)"
proof (cases "join '','' (map padded ts) = []")
  case True
  then have "\<forall>p\<in>set (map padded ts). p = []"
    using join_Nil[of "'',''" "map padded ts"] by simp
  then have "\<forall>t\<in>set ts. code_of t = []"
    by (auto simp: padded_def code_of_def)
  then have "filter (\<lambda>c. c \<noteq> []) (map code_of ts) = []"
    by (induction ts) auto
  with True show ?thesis by (simp add: product_codes_def)
next
  case False
  then have ne: "map padded ts \<noteq> []" by auto
  have "\<forall>p\<in>set (map padded ts). CHR '','' \<notin> set p"
    using assms by (auto dest: padded_no_comma)
  with ne have "split_on (CHR '','') (join '','' (map padded ts)) = map padded ts"
    using split_on_join[of "map padded ts" "CHR '',''"] by simp
  with False show ?thesis
    using kept_codes[OF assms] by (simp add: product_codes_def)
qed


text \<open>
  Claim C5. The row mapper of the stocked-out report splits the concatenated codes on
  commas, trims every piece and drops the empty ones: whatever whitespace surrounds the
  codes, and whatever empty pieces lie between the commas, the mapped \<open>Product codes\<close> list
  holds exactly the non-empty codes, in their order.
\<close>

theorem product_codes_roundtrip:
  assumes "\<forall>t\<in>set ts. good_piece t"
  shows "stockout_location_data (loc, cnt, Some (join '','' (map padded ts)))
         = PDict [(''Warehouse location'', loc),
                  (''Total stocked out products'', cnt),
                  (''Product codes'',
                     PList (map PStr (filter (\<lambda>c. c \<noteq> []) (map code_of ts))))]"
  using product_codes_join[OF assms] by (simp add: stockout_location_data_def)

theorem product_codes_roundtrip_witness:
  "stockout_location_data (PStr ''North'', PInt 3, Some ''A1, B2, C3'')
   = PDict [(''Warehouse location'', PStr ''North''),
            (''Total stocked out products'', PInt 3),
            (''Product codes'', PList [PStr ''A1'', PStr ''B2'', PStr ''C3''])]"
  using product_codes_roundtrip[of "[([], ''A1'', []), ('' '', ''B2'', []), ('' '', ''C3'', [])]"
      "PStr ''North''" "PInt 3"]
  by (simp add: good_piece_def padded_def code_of_def trimmed_def py_isspace_def)

text \<open>The same list with padding on every side, an empty piece and a trailing comma.\<close>

lemma product_codes_padded_variant:
  "product_codes (Some ''  A1 ,, B2  ,C3 , '') = [''A1'', ''B2'', ''C3'']"
  by (simp add: product_codes_def strip_def lstrip_def rstrip_def py_isspace_def)

section \<open>Stock distribution summary\<close>


lemma stock_levels_loop_eq:
  "stock_levels_loop rows (d, a, b, c) =
     (d @ map stock_levels_record rows,
      a + sum_list (map (count_of \<circ> partially_of) rows),
      b + sum_list (map (count_of \<circ> fully_of) rows),
      c + sum_list (map (count_of \<circ> stockout_of) rows))"
  by (induction rows arbitrary: d a b c)
     (auto simp: partially_of_def fully_of_def stockout_of_def)

lemma count_of_nonneg: "0 \<le> count_of cell"
  by (simp add: count_of_def split: option.splits)

lemma stock_levels_record_shape:
  "stock_levels_record row =
     PDict [(''Warehouse Location'', PStr (warehouse_of (fst row))),
            (''Partially Stocked'', PInt (count_of (partially_of row))),
            (''Fully Stocked'', PInt (count_of (fully_of row))),
            (''Stocked Out'', PInt (count_of (stockout_of row))),
            (''Total Items'',
               PInt (count_of (partially_of row) + count_of (fully_of row)
                     + count_of (stockout_of row)))]"
  by (cases row)
     (simp add: stock_levels_record_def Let_def partially_of_def fully_of_def stockout_of_def)

lemma stock_distribution_ok:
  assumes "exec stock_levels_query = Inr rows" "rows \<noteq> []"
  shows "stock_distribution_and_status_across_all_locations exec
         = ((PList (map stock_levels_record rows), 200), [stock_levels_query])"
  using assms
  by (simp add: stock_distribution_and_status_across_all_locations_def stock_levels_loop_eq)

text \<open>
  Claim C8. In the stock-distribution response, every record carries as \<open>Total Items\<close> the
  sum of its own three counts, and a NULL out-of-stock count is taken as 0. The loop also
  accumulates the three grand totals, and the response is the list of the per-row records
  alone: the totals are not part of it.
\<close>

theorem total_items_is_row_sum:
  assumes "exec stock_levels_query = Inr rows" "rows \<noteq> []"
  shows "stock_distribution_and_status_across_all_locations exec
           = ((PList (map stock_levels_record rows), 200), [stock_levels_query])
         \<and> stock_levels_loop rows ([], 0, 0, 0)
           = (map stock_levels_record rows,
              sum_list (map (count_of \<circ> partially_of) rows),
              sum_list (map (count_of \<circ> fully_of) rows),
              sum_list (map (count_of \<circ> stockout_of) rows))
         \<and> (\<forall>row\<in>set rows. \<exists>w p f s.
               stock_levels_record row =
                 PDict [(''Warehouse Location'', PStr w),
                        (''Partially Stocked'', PInt p),
                        (''Fully Stocked'', PInt f),
                        (''Stocked Out'', PInt s),
                        (''Total Items'', PInt (p + f + s))]
               \<and> (stockout_of row = None \<longrightarrow> s = 0))"
proof (intro conjI ballI)
  show "stock_distribution_and_status_across_all_locations exec
           = ((PList (map stock_levels_record rows), 200), [stock_levels_query])"
    using assms by (rule stock_distribution_ok)
  show "stock_levels_loop rows ([], 0, 0, 0)
           = (map stock_levels_record rows,
              sum_list (map (count_of \<circ> partially_of) rows),
              sum_list (map (count_of \<circ> fully_of) rows),
              sum_list (map (count_of \<circ> stockout_of) rows))"
    by (simp add: stock_levels_loop_eq)
next
  fix row assume "row \<in> set rows"
  have "stockout_of row = None \<longrightarrow> count_of (stockout_of row) = 0"
    by (simp add: count_of_def)
  then show "\<exists>w p f s.
               stock_levels_record row =
                 PDict [(''Warehouse Location'', PStr w),
                        (''Partially Stocked'', PInt p),
                        (''Fully Stocked'', PInt f),
                        (''Stocked Out'', PInt s),
                        (''Total Items'', PInt (p + f + s))]
               \<and> (stockout_of row = None \<longrightarrow> s = 0)"
    by (subst stock_levels_record_shape) simp
qed

theorem total_items_is_row_sum_witness:
  "stock_distribution_and_status_across_all_locations
     (\<lambda>q. Inr [(Some ''East'', Some (NInt 2), Some (NInt 5), None),
               (Some ''West'', Some (NInt 1), Some (NInt 0), Some (NInt 4))])
   = ((PList [PDict [(''Warehouse Location'', PStr ''East''),
                     (''Partially Stocked'', PInt 2),
                     (''Fully Stocked'', PInt 5),
                     (''Stocked Out'', PInt 0),
                     (''Total Items'', PInt 7)],
              PDict [(''Warehouse Location'', PStr ''West''),
                     (''Partially Stocked'', PInt 1),
                     (''Fully Stocked'', PInt 0),
                     (''Stocked Out'', PInt 4),
                     (''Total Items'', PInt 5)]], 200), [stock_levels_query])"
  using total_items_is_row_sum[of
      "\<lambda>q. Inr [(Some ''East'', Some (NInt 2), Some (NInt 5), None),
                (Some ''West'', Some (NInt 1), Some (NInt 0), Some (NInt 4))]"
      "[(Some ''East'', Some (NInt 2), Some (NInt 5), None),
        (Some ''West'', Some (NInt 1), Some (NInt 0), Some (NInt 4))]"]
  by (simp add: stock_levels_record_def count_of_def warehouse_of_def)

text \<open>
  Claim C9. In every record of the stock-distribution response the three counts are at
  least 0, whatever the row holds, and so is \<open>Total Items\<close>.
\<close>

theorem counts_never_negative:
  assumes "exec stock_levels_query = Inr rows" "rows \<noteq> []"
  shows "\<exists>recs. fst (stock_distribution_and_status_across_all_locations exec) = (PList recs, 200)
           \<and> length recs = length rows
           \<and> (\<forall>rec\<in>set recs. \<exists>w p f s t.
                 rec = PDict [(''Warehouse Location'', PStr w),
                              (''Partially Stocked'', PInt p),
                              (''Fully Stocked'', PInt f),
                              (''Stocked Out'', PInt s),
                              (''Total Items'', PInt t)]
                 \<and> 0 \<le> p \<and> 0 \<le> f \<and> 0 \<le> s \<and> 0 \<le> t)"
proof -
  have "\<exists>w p f s t.
          stock_levels_record row =
            PDict [(''Warehouse Location'', PStr w),
                   (''Partially Stocked'', PInt p),
                   (''Fully Stocked'', PInt f),
                   (''Stocked Out'', PInt s),
                   (''Total Items'', PInt t)]
          \<and> 0 \<le> p \<and> 0 \<le> f \<and> 0 \<le> s \<and> 0 \<le> t" for row
  proof -
    have "0 \<le> count_of (partially_of row) + count_of (fully_of row) + count_of (stockout_of row)"
      using count_of_nonneg[of "partially_of row"] count_of_nonneg[of "fully_of row"]
        count_of_nonneg[of "stockout_of row"] by linarith
    then show ?thesis
      by (subst stock_levels_record_shape) (simp add: count_of_nonneg)
  qed
  then have "\<forall>rec\<in>set (map stock_levels_record rows). \<exists>w p f s t.
                 rec = PDict [(''Warehouse Location'', PStr w),
                              (''Partially Stocked'', PInt p),
                              (''Fully Stocked'', PInt f),
                              (''Stocked Out'', PInt s),
                              (''Total Items'', PInt t)]
                 \<and> 0 \<le> p \<and> 0 \<le> f \<and> 0 \<le> s \<and> 0 \<le> t"
    by auto
  moreover have "fst (stock_distribution_and_status_across_all_locations exec)
                 = (PList (map stock_levels_record rows), 200)"
    using assms stock_distribution_ok[of exec rows] by simp
  ultimately show ?thesis
    by (intro exI[of _ "map stock_levels_record rows"]) simp
qed

theorem counts_never_negative_witness:
  "\<exists>recs. fst (stock_distribution_and_status_across_all_locations
                (\<lambda>q. Inr [(None, Some (NInt (- 4)), Some (NFloat (- 5 / 2)), None)]))
            = (PList recs, 200)
      \<and> length recs = length [(None :: string option, Some (NInt (- 4)), Some (NFloat (- 5 / 2)), None :: num option)]
      \<and> (\<forall>rec\<in>set recs. \<exists>w p f s t.
                 rec = PDict [(''Warehouse Location'', PStr w),
                              (''Partially Stocked'', PInt p),
                              (''Fully Stocked'', PInt f),
                              (''Stocked Out'', PInt s),
                              (''Total Items'', PInt t)]
                 \<and> 0 \<le> p \<and> 0 \<le> f \<and> 0 \<le> s \<and> 0 \<le> t)"
  using counts_never_negative[of
      "\<lambda>q. Inr [(None, Some (NInt (- 4)), Some (NFloat (- 5 / 2)), None)]"
      "[(None, Some (NInt (- 4)), Some (NFloat (- 5 / 2)), None)]"]
  by simp

section \<open>Parameter validation\<close>

lemma strip_Nil: "strip [] = []"
  by (simp add: strip_def lstrip_def rstrip_def)

lemma missing_iff: "missing a k \<longleftrightarrow> strip (arg_get a k) = []"
  by (simp add: missing_def arg_get_def strip_Nil split: option.splits)

lemma lstrip_trimmed_front: "lstrip s \<noteq> [] \<Longrightarrow> \<not> py_isspace (hd (lstrip s))"
  unfolding lstrip_def by (rule hd_dropWhile)

lemma rstrip_trimmed_back: "rstrip s \<noteq> [] \<Longrightarrow> \<not> py_isspace (last (rstrip s))"
  unfolding rstrip_def by (simp add: last_rev hd_dropWhile)

lemma rstrip_hd: "rstrip s \<noteq> [] \<Longrightarrow> hd (rstrip s) = hd s"
proof (induction s rule: rev_induct)
  case Nil
  then show ?case by (simp add: rstrip_def)
next
  case (snoc x xs)
  show ?case
  proof (cases "py_isspace x")
    case True
    then have eq: "rstrip (xs @ [x]) = rstrip xs" by (simp add: rstrip_def)
    with snoc have "hd (rstrip xs) = hd xs" by simp
    moreover from snoc.prems eq have "xs \<noteq> []" by (auto simp: rstrip_def)
    ultimately show ?thesis using eq by simp
  next
    case False
    then show ?thesis by (simp add: rstrip_def)
  qed
qed

lemma strip_trimmed: "trimmed (strip s)"
proof (cases "strip s = []")
  case True
  then show ?thesis by (simp add: trimmed_def)
next
  case False
  then have ne: "lstrip s \<noteq> []" by (auto simp: strip_def rstrip_def)
  have "hd (strip s) = hd (lstrip s)"
    using False unfolding strip_def by (rule rstrip_hd)
  then have "\<not> py_isspace (hd (strip s))"
    using lstrip_trimmed_front[OF ne] by simp
  moreover have "\<not> py_isspace (last (strip s))"
    using False unfolding strip_def by (rule rstrip_trimmed_back)
  ultimately show ?thesis by (simp add: trimmed_def)
qed

lemma strip_fixed: "trimmed s \<Longrightarrow> strip s = s"
  using strip_padded[of "[]" "[]" s] by simp

lemma strip_strip: "strip (strip s) = strip s"
  by (rule strip_fixed) (rule strip_trimmed)

lemma py_int_strip: "py_int (strip s) = py_int s"
  by (simp add: py_int_def strip_strip)

lemma py_int_Some_nonempty: "py_int s = Some n \<Longrightarrow> strip s \<noteq> []"
  by (auto simp: py_int_def)


text \<open>
  Claim C7. The inventory-level report accepts a request that supplies a location or a
  product code (or both): it is not answered with 400, and exactly one query is issued.
  When both are absent or empty once trimmed, the answer is the 400 body
  \<open>At least one parameter (location or product_code) is required\<close> and no query is issued.
\<close>

theorem inventory_level_needs_one_parameter:
  "(\<not> missing a ''location'' \<or> \<not> missing a ''product_code'' \<longrightarrow>
      (\<exists>w. snd (get_inventory_level_for_products_and_locations a exec)
             = [inventory_level_query w])
      \<and> snd (fst (get_inventory_level_for_products_and_locations a exec)) \<noteq> 400)
   \<and> (missing a ''location'' \<and> missing a ''product_code'' \<longrightarrow>
        get_inventory_level_for_products_and_locations a exec
        = ((PDict [(''status'', PInt 400),
                    (''message'',
                       PStr ''At least one parameter (location or product_code) is required'')],
            400), []))"
  by (auto simp: missing_iff get_inventory_level_for_products_and_locations_def Let_def
        status_message_def split: sum.splits)

theorem inventory_level_needs_one_parameter_witness:
  "(\<exists>w. snd (get_inventory_level_for_products_and_locations
               [''product_code'' \<mapsto> ''SKU1''] (\<lambda>q. Inr [(PStr ''W1'', PStr ''SKU1'', PInt 7)]))
          = [inventory_level_query w])
   \<and> snd (fst (get_inventory_level_for_products_and_locations
               [''product_code'' \<mapsto> ''SKU1''] (\<lambda>q. Inr [(PStr ''W1'', PStr ''SKU1'', PInt 7)])))
       \<noteq> 400
   \<and> get_inventory_level_for_products_and_locations
        [''location'' \<mapsto> ''  ''] (\<lambda>q. Inr [(PStr ''W1'', PStr ''SKU1'', PInt 7)])
      = ((PDict [(''status'', PInt 400),
                  (''message'',
                     PStr ''At least one parameter (location or product_code) is required'')],
          400), [])"
proof -
  have 1: "\<not> missing [''product_code'' \<mapsto> ''SKU1''] ''product_code''"
    by (simp add: missing_def strip_def lstrip_def rstrip_def py_isspace_def)
  have 2: "missing [''location'' \<mapsto> ''  ''] ''location''
           \<and> missing [''location'' \<mapsto> ''  ''] ''product_code''"
    by (simp add: missing_def strip_def lstrip_def rstrip_def py_isspace_def)
  show ?thesis
    using 1 2
      inventory_level_needs_one_parameter[of "[''product_code'' \<mapsto> ''SKU1'']"
        "\<lambda>q. Inr [(PStr ''W1'', PStr ''SKU1'', PInt 7)]"]
      inventory_level_needs_one_parameter[of "[''location'' \<mapsto> ''  '']"
        "\<lambda>q. Inr [(PStr ''W1'', PStr ''SKU1'', PInt 7)]"]
    by blast
qed

text \<open>
  Claim C3. The three reports with a required parameter (estimated stockout by cover
  days, sales rate by product, forecast against actual by product) answer 400 and hand
  nothing to the executor when that parameter is absent or empty once trimmed.
\<close>

theorem required_parameter_missing:
  "(missing a ''cover_days'' \<longrightarrow>
      estimated_stockout_of_products_by_cover_days a exec1
      = ((PDict [(''status'', PInt 400), (''message'', PStr ''Cover days parameter is required'')],
          400), []))
   \<and> (missing a ''product_code'' \<longrightarrow>
        sales_rate_by_product_and_location a exec2
        = ((PDict [(''status'', PStr ''error''), (''message'', PStr ''Product code is required'')],
            400), []))
   \<and> (missing a ''product_code'' \<longrightarrow>
        forecast_sales_vs_actual_sales_for_products_and_locations a exec3
        = ((PDict [(''status'', PStr ''error''), (''message'', PStr ''Product code is required'')],
            400), []))"
  by (simp add: missing_iff estimated_stockout_of_products_by_cover_days_def
        sales_rate_by_product_and_location_def
        forecast_sales_vs_actual_sales_for_products_and_locations_def
        status_message_def error_message_def)


theorem required_parameter_missing_witness:
  "estimated_stockout_of_products_by_cover_days Map.empty (\<lambda>q. Inr [(PNone, PNone, PNone)])
     = ((PDict [(''status'', PInt 400), (''message'', PStr ''Cover days parameter is required'')],
         400), [])
   \<and> sales_rate_by_product_and_location Map.empty (\<lambda>q. Inr [(PNone, None)])
     = ((PDict [(''status'', PStr ''error''), (''message'', PStr ''Product code is required'')],
         400), [])
   \<and> forecast_sales_vs_actual_sales_for_products_and_locations Map.empty
        (\<lambda>q. Inr [(PNone, PNone, None, None, None)])
     = ((PDict [(''status'', PStr ''error''), (''message'', PStr ''Product code is required'')],
         400), [])"
  using required_parameter_missing[of Map.empty "\<lambda>q. Inr [(PNone, PNone, PNone)]"
      "\<lambda>q. Inr [(PNone, None)]" "\<lambda>q. Inr [(PNone, PNone, None, None, None)]"]
  by (simp add: missing_def)

lemma cover_days_rejected:
  assumes "a ''cover_days'' = Some v" "py_int v = None \<or> (\<exists>n. py_int v = Some n \<and> n \<le> 0)"
  shows "snd (fst (estimated_stockout_of_products_by_cover_days a exec)) = 400
         \<and> snd (estimated_stockout_of_products_by_cover_days a exec) = []"
  using assms
  by (auto simp: estimated_stockout_of_products_by_cover_days_def arg_get_def py_int_strip Let_def)

lemma cover_days_accepted:
  assumes "a ''cover_days'' = Some v" "py_int v = Some n" "0 < n"
  shows "snd (estimated_stockout_of_products_by_cover_days a exec) = [estimated_stockout_query n]"
  using assms py_int_Some_nonempty[of v n]
  by (auto simp: estimated_stockout_of_products_by_cover_days_def arg_get_def py_int_strip Let_def
        split: sum.splits)

lemma py_int_abc: "py_int ''abc'' = None"
  by (simp add: py_int_def strip_def lstrip_def rstrip_def py_isspace_def is_digit_def)

lemma strip_abc: "strip ''abc'' = ''abc''"
  by (simp add: strip_def lstrip_def rstrip_def py_isspace_def)

lemma py_int_5: "py_int ''5'' = Some 5"
  by (simp add: py_int_def strip_def lstrip_def rstrip_def py_isspace_def is_digit_def
        digits_value_def digit_val_def)

lemma str_int_5: "str_int 5 = ''5''"
  by code_simp

lemma estimated_stockout_query_5:
  "estimated_stockout_query 5 = concat
        [nl,
        ''            SELECT '', nl,
        ''                warehouse_location,'', nl,
        ''                COUNT(*) as total_products,'', nl,
        ''                SUM(CASE WHEN cover_days <= 5 THEN 1 ELSE 0 END) as products_below_threshold'', nl,
        ''            FROM tbl_available_stock_anom'', nl,
        ''            GROUP BY warehouse_location'', nl,
        ''            HAVING SUM(CASE WHEN cover_days <= 5 THEN 1 ELSE 0 END) > 0'', nl,
        ''            ORDER BY products_below_threshold DESC'', nl,
        ''        '']"
  by (simp add: estimated_stockout_query_def str_int_5)

text \<open>
  Claim C4. In the estimated-stockout report a \<open>cover_days\<close> value that does not parse as an
  integer (such as \<open>abc\<close>), or that parses to 0 or to a negative integer, is answered with 400
  and no query is issued. A value that parses to a positive integer issues exactly one
  query, the template with that integer in it; for \<open>5\<close> its below-threshold count is the
  sum over \<open>cover_days <= 5\<close>.
\<close>

theorem cover_days_threshold:
  "(a ''cover_days'' = Some v \<and> (py_int v = None \<or> (\<exists>n. py_int v = Some n \<and> n \<le> 0)) \<longrightarrow>
      snd (fst (estimated_stockout_of_products_by_cover_days a exec)) = 400
      \<and> snd (estimated_stockout_of_products_by_cover_days a exec) = [])
   \<and> (a ''cover_days'' = Some v \<and> py_int v = Some n \<and> 0 < n \<longrightarrow>
        snd (estimated_stockout_of_products_by_cover_days a exec) = [estimated_stockout_query n])
   \<and> estimated_stockout_of_products_by_cover_days [''cover_days'' \<mapsto> ''abc''] exec
      = ((PDict [(''status'', PInt 400),
                  (''message'', PStr ''Invalid cover_days. Must be a valid number.'')], 400), [])
   \<and> snd (estimated_stockout_of_products_by_cover_days [''cover_days'' \<mapsto> ''5''] exec)
      = [estimated_stockout_query 5]
   \<and> estimated_stockout_query 5 = concat
        [nl,
        ''            SELECT '', nl,
        ''                warehouse_location,'', nl,
        ''                COUNT(*) as total_products,'', nl,
        ''                SUM(CASE WHEN cover_days <= 5 THEN 1 ELSE 0 END) as products_below_threshold'', nl,
        ''            FROM tbl_available_stock_anom'', nl,
        ''            GROUP BY warehouse_location'', nl,
        ''            HAVING SUM(CASE WHEN cover_days <= 5 THEN 1 ELSE 0 END) > 0'', nl,
        ''            ORDER BY products_below_threshold DESC'', nl,
        ''        '']"
proof (intro conjI impI)
  show "estimated_stockout_of_products_by_cover_days [''cover_days'' \<mapsto> ''abc''] exec
      = ((PDict [(''status'', PInt 400),
                  (''message'', PStr ''Invalid cover_days. Must be a valid number.'')], 400), [])"
    using py_int_abc strip_abc
    by (simp add: estimated_stockout_of_products_by_cover_days_def arg_get_def py_int_strip
          status_message_def Let_def)
  show "snd (estimated_stockout_of_products_by_cover_days [''cover_days'' \<mapsto> ''5''] exec)
      = [estimated_stockout_query 5]"
    using cover_days_accepted[of "[''cover_days'' \<mapsto> ''5'']" "''5''" 5 exec] py_int_5 by simp
  show "estimated_stockout_query 5 = concat
        [nl,
        ''            SELECT '', nl,
        ''                warehouse_location,'', nl,
        ''                COUNT(*) as total_products,'', nl,
        ''                SUM(CASE WHEN cover_days <= 5 THEN 1 ELSE 0 END) as products_below_threshold'', nl,
        ''            FROM tbl_available_stock_anom'', nl,
        ''            GROUP BY warehouse_location'', nl,
        ''            HAVING SUM(CASE WHEN cover_days <= 5 THEN 1 ELSE 0 END) > 0'', nl,
        ''            ORDER BY products_below_threshold DESC'', nl,
        ''        '']"
    by (rule estimated_stockout_query_5)
qed (use cover_days_rejected cover_days_accepted in blast)+

theorem cover_days_threshold_witness:
  "snd (fst (estimated_stockout_of_products_by_cover_days [''cover_days'' \<mapsto> '' -3 '']
              (\<lambda>q. Inr [(PStr ''W1'', PInt 4, PInt 2)]))) = 400
   \<and> snd (estimated_stockout_of_products_by_cover_days [''cover_days'' \<mapsto> '' -3 '']
              (\<lambda>q. Inr [(PStr ''W1'', PInt 4, PInt 2)])) = []
   \<and> snd (fst (estimated_stockout_of_products_by_cover_days [''cover_days'' \<mapsto> ''0'']
              (\<lambda>q. Inr [(PStr ''W1'', PInt 4, PInt 2)]))) = 400
   \<and> snd (estimated_stockout_of_products_by_cover_days [''cover_days'' \<mapsto> ''0'']
              (\<lambda>q. Inr [(PStr ''W1'', PInt 4, PInt 2)])) = []
   \<and> snd (estimated_stockout_of_products_by_cover_days [''cover_days'' \<mapsto> ''12'']
              (\<lambda>q. Inr [(PStr ''W1'', PInt 4, PInt 2)])) = [estimated_stockout_query 12]"
proof -
  have 1: "py_int '' -3 '' = Some (- 3)"
    by (simp add: py_int_def strip_def lstrip_def rstrip_def py_isspace_def is_digit_def
          digits_value_def digit_val_def)
  have 2: "py_int ''0'' = Some 0"
    by (simp add: py_int_def strip_def lstrip_def rstrip_def py_isspace_def is_digit_def
          digits_value_def digit_val_def)
  have 3: "py_int ''12'' = Some 12"
    by (simp add: py_int_def strip_def lstrip_def rstrip_def py_isspace_def is_digit_def
          digits_value_def digit_val_def)
  show ?thesis
    using 1 2 3
      cover_days_threshold[of "[''cover_days'' \<mapsto> '' -3 '']" "'' -3 ''"
        "\<lambda>q. Inr [(PStr ''W1'', PInt 4, PInt 2)]" 1]
      cover_days_threshold[of "[''cover_days'' \<mapsto> ''0'']" "''0''"
        "\<lambda>q. Inr [(PStr ''W1'', PInt 4, PInt 2)]" 1]
      cover_days_threshold[of "[''cover_days'' \<mapsto> ''12'']" "''12''"
        "\<lambda>q. Inr [(PStr ''W1'', PInt 4, PInt 2)]" 12]
    by simp
qed

section \<open>Empty result sets\<close>

lemma inventory_level_empty:
  assumes "\<not> missing a ''location'' \<or> \<not> missing a ''product_code''" "\<forall>q. exec q = Inr []"
  shows "fst (get_inventory_level_for_products_and_locations a exec)
         = (PDict [(''status'', PInt 404),
                   (''message'',
                      PStr (''No inventory data found for '' @ join '' and ''
                        ((if strip (arg_get a ''location'') \<noteq> []
                          then [''location: '' @ strip (arg_get a ''location'')] else [])
                         @ (if strip (arg_get a ''product_code'') \<noteq> []
                            then [''product code: '' @ strip (arg_get a ''product_code'')]
                            else []))))], 404)"
  using assms
  by (auto simp: missing_iff get_inventory_level_for_products_and_locations_def Let_def
        status_message_def)

lemma estimated_stockout_empty:
  assumes "a ''cover_days'' = Some v" "py_int v = Some n" "0 < n" "\<forall>q. exec q = Inr []"
  shows "estimated_stockout_of_products_by_cover_days a exec
         = ((PDict [(''status'', PInt 404),
                    (''message'', PStr ''No estimates found for the given criteria'')], 404),
            [estimated_stockout_query n])"
  using assms py_int_Some_nonempty[of v n]
  by (simp add: estimated_stockout_of_products_by_cover_days_def arg_get_def py_int_strip Let_def
        status_message_def)

lemma sales_rate_empty:
  assumes "a ''product_code'' = Some v" "py_int v = Some n" "\<forall>q. exec q = Inr []"
  shows "sales_rate_by_product_and_location a exec = ((PList [], 200), [sales_rate_query n])"
  using assms py_int_Some_nonempty[of v n]
  by (simp add: sales_rate_by_product_and_location_def arg_get_def py_int_strip Let_def)

lemma forecast_empty:
  assumes "a ''product_code'' = Some v" "py_int v = Some n" "\<forall>q. exec q = Inr []"
  shows "forecast_sales_vs_actual_sales_for_products_and_locations a exec
         = ((PList [], 200), [forecast_vs_actual_query n])"
  using assms py_int_Some_nonempty[of v n]
  by (simp add: forecast_sales_vs_actual_sales_for_products_and_locations_def arg_get_def
        py_int_strip Let_def)

text \<open>
  Claim C1, as stated: every report endpoint answers an empty result set with 404. The
  top-products report answers the empty result set with 200 and an empty list.
\<close>

theorem empty_result_not_always_404:
  "fst (top_products_and_their_projected_demand (\<lambda>q. Inr [])) = (PList [], 200)
   \<and> snd (fst (top_products_and_their_projected_demand (\<lambda>q. Inr []))) \<noteq> 404"
  by (simp add: top_products_and_their_projected_demand_def)

text \<open>
  Claim C1, amended. On an empty result set, eleven inventory reports (all but the
  variance analysis) and the two unique-value reports of the sales group answer 404 with
  their own message; the variance analysis and the five sales reports (top products,
  overselling, underselling, sales rate by product, forecast against actual) have no such
  check and answer 200 with empty data.
\<close>

theorem empty_result_responses:
  "(e1 inv_categories_query = Inr [] \<longrightarrow>
      inv_unique_product_categories e1
      = ((PDict [(''status'', PInt 404), (''message'', PStr ''No product categories found'')], 404),
         [inv_categories_query]))
   \<and> (e2 inv_locations_query = Inr [] \<longrightarrow>
      inv_unique_warehouse_locations e2
      = ((PDict [(''status'', PInt 404), (''message'', PStr ''No warehouse locations found'')], 404),
         [inv_locations_query]))
   \<and> (e3 stocked_out_query = Inr [] \<longrightarrow>
      stocked_out_products_all_locations e3
      = ((PDict [(''status'', PInt 404), (''message'', PStr ''No stocked out products found'')], 404),
         [stocked_out_query]))
   \<and> (e4 overstocked_query = Inr [] \<longrightarrow>
      overstocked_products_by_location_and_product e4
      = ((PDict [(''status'', PInt 404), (''message'', PStr ''No overstocked items found.'')], 404),
         [overstocked_query]))
   \<and> (e5 understocked_query = Inr [] \<longrightarrow>
      understocked_products_by_location_and_product e5
      = ((PDict [(''message'', PStr ''No understocked items found'')], 404),
         [understocked_query]))
   \<and> (e6 stock_levels_query = Inr [] \<longrightarrow>
      stock_distribution_and_status_across_all_locations e6
      = ((PDict [(''message'', PStr ''No stock level data found''),
                 (''status'', PStr ''empty''),
                 (''data'', PList [])], 404),
         [stock_levels_query]))
   \<and> (e7 expected_stock_query = Inr [] \<longrightarrow>
      expected_stock_requirements_for_products_till_month_ends e7
      = ((PDict [(''status'', PInt 404), (''message'', PStr ''No stock level data found'')], 404),
         [expected_stock_query]))
   \<and> (e8 cover_days_summary_query = Inr [] \<longrightarrow>
      cover_days_summary e8
      = ((PDict [(''status'', PInt 404),
                 (''message'', PStr ''No cover days distribution data found'')], 404),
         [cover_days_summary_query]))
   \<and> (e9 discontinued_query = Inr [] \<longrightarrow>
      discontinued_products_across_all_warehouse_locations e9
      = ((PDict [(''status'', PInt 404),
                 (''message'', PStr ''No discontinued products data found'')], 404),
         [discontinued_query]))
   \<and> ((\<not> missing a ''location'' \<or> \<not> missing a ''product_code'') \<and> (\<forall>q. e10 q = Inr []) \<longrightarrow>
      fst (get_inventory_level_for_products_and_locations a e10)
      = (PDict [(''status'', PInt 404),
                (''message'',
                   PStr (''No inventory data found for '' @ join '' and ''
                     ((if strip (arg_get a ''location'') \<noteq> []
                       then [''location: '' @ strip (arg_get a ''location'')] else [])
                      @ (if strip (arg_get a ''product_code'') \<noteq> []
                         then [''product code: '' @ strip (arg_get a ''product_code'')]
                         else []))))], 404))
   \<and> (a ''cover_days'' = Some v \<and> py_int v = Some n \<and> 0 < n \<and> (\<forall>q. e11 q = Inr []) \<longrightarrow>
      estimated_stockout_of_products_by_cover_days a e11
      = ((PDict [(''status'', PInt 404),
                 (''message'', PStr ''No estimates found for the given criteria'')], 404),
         [estimated_stockout_query n]))
   \<and> (e12 sales_categories_query = Inr [] \<longrightarrow>
      sales_unique_product_categories e12
      = ((PDict [(''status'', PInt 404), (''message'', PStr ''No product categories found'')], 404),
         [sales_categories_query]))
   \<and> (e13 sales_locations_query = Inr [] \<longrightarrow>
      sales_unique_warehouse_locations e13
      = ((PDict [(''status'', PInt 404), (''message'', PStr ''No warehouse locations found'')], 404),
         [sales_locations_query]))
   \<and> (e14 positive_query = Inr [] \<and> e14 negative_query = Inr [] \<longrightarrow>
      inventory_variance_analysis_across_locations e14
      = ((PDict [(''positive_variance_data'', PList []),
                 (''negative_variance_data'', PList [])], 200),
         [positive_query, negative_query]))
   \<and> (e15 top_products_query = Inr [] \<longrightarrow>
      top_products_and_their_projected_demand e15 = ((PList [], 200), [top_products_query]))
   \<and> (e16 overselling_query = Inr [] \<longrightarrow>
      overselling_products_based_on_sales e16
      = ((PDict [(''message'', PStr ''All overselling products across all locations.''),
                 (''data'', PList [])], 200),
         [overselling_query]))
   \<and> (e17 underselling_query = Inr [] \<longrightarrow>
      underselling_products_based_on_sales e17
      = ((PDict [(''message'', PStr ''All underselling products across all locations.''),
                 (''data'', PList [])], 200),
         [underselling_query]))
   \<and> (a ''product_code'' = Some w \<and> py_int w = Some m \<and> (\<forall>q. e18 q = Inr []) \<longrightarrow>
      sales_rate_by_product_and_location a e18 = ((PList [], 200), [sales_rate_query m]))
   \<and> (a ''product_code'' = Some w \<and> py_int w = Some m \<and> (\<forall>q. e19 q = Inr []) \<longrightarrow>
      forecast_sales_vs_actual_sales_for_products_and_locations a e19
      = ((PList [], 200), [forecast_vs_actual_query m]))"
proof (intro conjI impI)
  show "inv_unique_product_categories e1
      = ((PDict [(''status'', PInt 404), (''message'', PStr ''No product categories found'')], 404),
         [inv_categories_query])" if "e1 inv_categories_query = Inr []"
    using that by (simp add: inv_unique_product_categories_def status_message_def)
  show "inv_unique_warehouse_locations e2
      = ((PDict [(''status'', PInt 404), (''message'', PStr ''No warehouse locations found'')], 404),
         [inv_locations_query])" if "e2 inv_locations_query = Inr []"
    using that by (simp add: inv_unique_warehouse_locations_def status_message_def)
  show "stocked_out_products_all_locations e3
      = ((PDict [(''status'', PInt 404), (''message'', PStr ''No stocked out products found'')], 404),
         [stocked_out_query])" if "e3 stocked_out_query = Inr []"
    using that by (simp add: stocked_out_products_all_locations_def status_message_def)
  show "overstocked_products_by_location_and_product e4
      = ((PDict [(''status'', PInt 404), (''message'', PStr ''No overstocked items found.'')], 404),
         [overstocked_query])" if "e4 overstocked_query = Inr []"
    using that by (simp add: overstocked_products_by_location_and_product_def status_message_def)
  show "understocked_products_by_location_and_product e5
      = ((PDict [(''message'', PStr ''No understocked items found'')], 404),
         [understocked_query])" if "e5 understocked_query = Inr []"
    using that by (simp add: understocked_products_by_location_and_product_def)
  show "stock_distribution_and_status_across_all_locations e6
      = ((PDict [(''message'', PStr ''No stock level data found''),
                 (''status'', PStr ''empty''),
                 (''data'', PList [])], 404),
         [stock_levels_query])" if "e6 stock_levels_query = Inr []"
    using that by (simp add: stock_distribution_and_status_across_all_locations_def)
  show "expected_stock_requirements_for_products_till_month_ends e7
      = ((PDict [(''status'', PInt 404), (''message'', PStr ''No stock level data found'')], 404),
         [expected_stock_query])" if "e7 expected_stock_query = Inr []"
    using that
    by (simp add: expected_stock_requirements_for_products_till_month_ends_def status_message_def)
  show "cover_days_summary e8
      = ((PDict [(''status'', PInt 404),
                 (''message'', PStr ''No cover days distribution data found'')], 404),
         [cover_days_summary_query])" if "e8 cover_days_summary_query = Inr []"
    using that by (simp add: cover_days_summary_def status_message_def)
  show "discontinued_products_across_all_warehouse_locations e9
      = ((PDict [(''status'', PInt 404),
                 (''message'', PStr ''No discontinued products data found'')], 404),
         [discontinued_query])" if "e9 discontinued_query = Inr []"
    using that
    by (simp add: discontinued_products_across_all_warehouse_locations_def status_message_def)
  show "sales_unique_product_categories e12
      = ((PDict [(''status'', PInt 404), (''message'', PStr ''No product categories found'')], 404),
         [sales_categories_query])" if "e12 sales_categories_query = Inr []"
    using that by (simp add: sales_unique_product_categories_def status_message_def)
  show "sales_unique_warehouse_locations e13
      = ((PDict [(''status'', PInt 404), (''message'', PStr ''No warehouse locations found'')], 404),
         [sales_locations_query])" if "e13 sales_locations_query = Inr []"
    using that by (simp add: sales_unique_warehouse_locations_def status_message_def)
  show "inventory_variance_analysis_across_locations e14
      = ((PDict [(''positive_variance_data'', PList []),
                 (''negative_variance_data'', PList [])], 200),
         [positive_query, negative_query])"
    if "e14 positive_query = Inr [] \<and> e14 negative_query = Inr []"
    using that
    by (simp add: inventory_variance_analysis_across_locations_def process_variance_data_def)
  show "top_products_and_their_projected_demand e15 = ((PList [], 200), [top_products_query])"
    if "e15 top_products_query = Inr []"
    using that by (simp add: top_products_and_their_projected_demand_def)
  show "overselling_products_based_on_sales e16
      = ((PDict [(''message'', PStr ''All overselling products across all locations.''),
                 (''data'', PList [])], 200),
         [overselling_query])" if "e16 overselling_query = Inr []"
    using that by (simp add: overselling_products_based_on_sales_def)
  show "underselling_products_based_on_sales e17
      = ((PDict [(''message'', PStr ''All underselling products across all locations.''),
                 (''data'', PList [])], 200),
         [underselling_query])" if "e17 underselling_query = Inr []"
    using that by (simp add: underselling_products_based_on_sales_def)
  show "fst (get_inventory_level_for_products_and_locations a e10)
      = (PDict [(''status'', PInt 404),
                (''message'',
                   PStr (''No inventory data found for '' @ join '' and ''
                     ((if strip (arg_get a ''location'') \<noteq> []
                       then [''location: '' @ strip (arg_get a ''location'')] else [])
                      @ (if strip (arg_get a ''product_code'') \<noteq> []
                         then [''product code: '' @ strip (arg_get a ''product_code'')]
                         else []))))], 404)"
    if "(\<not> missing a ''location'' \<or> \<not> missing a ''product_code'') \<and> (\<forall>q. e10 q = Inr [])"
    using that inventory_level_empty[of a e10] by simp
  show "estimated_stockout_of_products_by_cover_days a e11
      = ((PDict [(''status'', PInt 404),
                 (''message'', PStr ''No estimates found for the given criteria'')], 404),
         [estimated_stockout_query n])"
    if "a ''cover_days'' = Some v \<and> py_int v = Some n \<and> 0 < n \<and> (\<forall>q. e11 q = Inr [])"
    using that estimated_stockout_empty[of a v n e11] by simp
  show "sales_rate_by_product_and_location a e18 = ((PList [], 200), [sales_rate_query m])"
    if "a ''product_code'' = Some w \<and> py_int w = Some m \<and> (\<forall>q. e18 q = Inr [])"
    using that sales_rate_empty[of a w m e18] by simp
  show "forecast_sales_vs_actual_sales_for_products_and_locations a e19
      = ((PList [], 200), [forecast_vs_actual_query m])"
    if "a ''product_code'' = Some w \<and> py_int w = Some m \<and> (\<forall>q. e19 q = Inr [])"
    using that forecast_empty[of a w m e19] by simp
qed


theorem empty_result_responses_witness:
  "map (\<lambda>out. snd (fst out))
     [inv_unique_product_categories (\<lambda>q. Inr []),
      inv_unique_warehouse_locations (\<lambda>q. Inr []),
      stocked_out_products_all_locations (\<lambda>q. Inr []),
      overstocked_products_by_location_and_product (\<lambda>q. Inr []),
      understocked_products_by_location_and_product (\<lambda>q. Inr []),
      stock_distribution_and_status_across_all_locations (\<lambda>q. Inr []),
      expected_stock_requirements_for_products_till_month_ends (\<lambda>q. Inr []),
      cover_days_summary (\<lambda>q. Inr []),
      discontinued_products_across_all_warehouse_locations (\<lambda>q. Inr []),
      get_inventory_level_for_products_and_locations
        [''cover_days'' \<mapsto> ''5'', ''product_code'' \<mapsto> ''7''] (\<lambda>q. Inr []),
      estimated_stockout_of_products_by_cover_days
        [''cover_days'' \<mapsto> ''5'', ''product_code'' \<mapsto> ''7''] (\<lambda>q. Inr []),
      sales_unique_product_categories (\<lambda>q. Inr []),
      sales_unique_warehouse_locations (\<lambda>q. Inr []),
      inventory_variance_analysis_across_locations (\<lambda>q. Inr []),
      top_products_and_their_projected_demand (\<lambda>q. Inr []),
      overselling_products_based_on_sales (\<lambda>q. Inr []),
      underselling_products_based_on_sales (\<lambda>q. Inr []),
      sales_rate_by_product_and_location
        [''cover_days'' \<mapsto> ''5'', ''product_code'' \<mapsto> ''7''] (\<lambda>q. Inr []),
      forecast_sales_vs_actual_sales_for_products_and_locations
        [''cover_days'' \<mapsto> ''5'', ''product_code'' \<mapsto> ''7''] (\<lambda>q. Inr [])]
   = [404, 404, 404, 404, 404, 404, 404, 404, 404, 404, 404, 404, 404,
      200, 200, 200, 200, 200, 200]"
proof -
  have 1: "py_int ''7'' = Some 7"
    by (simp add: py_int_def strip_def lstrip_def rstrip_def py_isspace_def is_digit_def
          digits_value_def digit_val_def)
  have 2: "\<not> missing [''cover_days'' \<mapsto> ''5'', ''product_code'' \<mapsto> ''7''] ''product_code''"
    by (simp add: missing_def strip_def lstrip_def rstrip_def py_isspace_def)
  show ?thesis
    using 1 2 py_int_5
      empty_result_responses[of "\<lambda>q. Inr []" "\<lambda>q. Inr []" "\<lambda>q. Inr []" "\<lambda>q. Inr []"
        "\<lambda>q. Inr []" "\<lambda>q. Inr []" "\<lambda>q. Inr []" "\<lambda>q. Inr []" "\<lambda>q. Inr []"
        "[''cover_days'' \<mapsto> ''5'', ''product_code'' \<mapsto> ''7'']" "\<lambda>q. Inr []"
        "''5''" 5 "\<lambda>q. Inr []" "\<lambda>q. Inr []" "\<lambda>q. Inr []" "\<lambda>q. Inr []"
        "\<lambda>q. Inr []" "\<lambda>q. Inr []" "\<lambda>q. Inr []" "''7''" 7 "\<lambda>q. Inr []" "\<lambda>q. Inr []"]
    by simp
qed

section \<open>Conversion of integers to floats\<close>

lemma bit_length_lower: "n \<noteq> 0 \<Longrightarrow> 2 ^ (bit_length n - 1) \<le> n"
proof (induction n rule: bit_length.induct)
  case (1 n)
  show ?case
  proof (cases "n div 2 = 0")
    case True
    with "1.prems" have "n = 1" by presburger
    then show ?thesis by (simp add: bit_length.simps)
  next
    case False
    with "1.IH" "1.prems" have ih: "2 ^ (bit_length (n div 2) - 1) \<le> n div 2" by simp
    from False have pos: "bit_length (n div 2) \<noteq> 0" by (simp add: bit_length.simps)
    have "bit_length n = Suc (bit_length (n div 2))"
      using "1.prems" by (simp add: bit_length.simps)
    then have "(2::nat) ^ (bit_length n - 1) = 2 * 2 ^ (bit_length (n div 2) - 1)"
      using pos by (cases "bit_length (n div 2)") simp_all
    also have "\<dots> \<le> 2 * (n div 2)" using ih by simp
    also have "\<dots> \<le> n" by simp
    finally show ?thesis .
  qed
qed

lemma bit_length_upper: "n < 2 ^ k \<Longrightarrow> bit_length n \<le> k"
proof (induction n arbitrary: k rule: bit_length.induct)
  case (1 n)
  show ?case
  proof (cases "n = 0")
    case True
    then show ?thesis by (simp add: bit_length.simps)
  next
    case False
    with "1.prems" obtain j where k: "k = Suc j" by (cases k) auto
    with "1.prems" have "n div 2 < 2 ^ j" by auto
    with "1.IH" False have "bit_length (n div 2) \<le> j" by simp
    then show ?thesis using False k by (simp add: bit_length.simps)
  qed
qed

lemma bit_length_gt: "n < 2 ^ bit_length n"
proof (induction n rule: bit_length.induct)
  case (1 n)
  show ?case
  proof (cases "n = 0")
    case True
    then show ?thesis by simp
  next
    case False
    with "1.IH" have "n div 2 < 2 ^ bit_length (n div 2)" by simp
    then have "n < 2 * 2 ^ bit_length (n div 2)" by linarith
    then show ?thesis using False by (simp add: bit_length.simps)
  qed
qed

lemma bit_length_eq: "2 ^ k \<le> n \<Longrightarrow> n < 2 ^ Suc k \<Longrightarrow> bit_length n = Suc k"
proof -
  assume lo: "2 ^ k \<le> n" and hi: "n < 2 ^ Suc k"
  from hi have "bit_length n \<le> Suc k" by (rule bit_length_upper)
  moreover have "k < bit_length n"
  proof (rule ccontr)
    assume "\<not> k < bit_length n"
    then have "(2::nat) ^ bit_length n \<le> 2 ^ k" by (simp add: power_increasing)
    with bit_length_gt[of n] lo show False by linarith
  qed
  ultimately show ?thesis by linarith
qed

lemma bit_length_54:
  "bit_length 9007199254740992 = 54" "bit_length 9007199254740993 = 54"
  using bit_length_eq[of 53 9007199254740992] bit_length_eq[of 53 9007199254740993]
  by simp_all

lemma float_of_int_small: "\<bar>n\<bar> < 2 ^ 53 \<Longrightarrow> float_of_int n = Inr (of_int n)"
proof -
  assume "\<bar>n\<bar> < 2 ^ 53"
  then have "nat \<bar>n\<bar> < 2 ^ 53" by (simp add: nat_less_iff)
  then have "bit_length (nat \<bar>n\<bar>) \<le> 53" by (rule bit_length_upper)
  then show ?thesis by (simp add: float_of_int_def Let_def)
qed

lemma float_of_int_2p53: "float_of_int 9007199254740992 = Inr 9007199254740992"
  by (simp add: float_of_int_def Let_def bit_length_54)

lemma float_of_int_m2p53: "float_of_int (- 9007199254740992) = Inr (- 9007199254740992)"
  by (simp add: float_of_int_def Let_def bit_length_54)

lemma float_of_int_exact: "\<bar>n\<bar> \<le> 2 ^ 53 \<Longrightarrow> float_of_int n = Inr (of_int n)"
proof -
  assume "\<bar>n\<bar> \<le> 2 ^ 53"
  then consider "\<bar>n\<bar> < 2 ^ 53" | "n = 9007199254740992" | "n = - 9007199254740992"
    by fastforce
  then show ?thesis
  proof cases
    case 1 then show ?thesis by (rule float_of_int_small)
  next
    case 2 then show ?thesis using float_of_int_2p53 by simp
  next
    case 3 then show ?thesis using float_of_int_m2p53 by simp
  qed
qed

lemma trunc_of_int: "trunc (of_int n) = n"
  by (simp add: trunc_def)

lemma rate_field_exact: "float_exact cell \<Longrightarrow> rate_field cell = Inr (magnitude_field cell)"
proof (cases cell)
  case None
  then show ?thesis by (simp add: rate_field_def magnitude_field_def)
next
  case (Some v)
  assume ex: "float_exact cell"
  show ?thesis
  proof (cases v)
    case (NInt n)
    with Some ex have "float_of_int n = Inr (of_int n)"
      by (simp add: float_exact_def float_of_int_exact)
    with Some NInt show ?thesis
      by (simp add: rate_field_def magnitude_field_def trunc_of_int)
  next
    case (NFloat x)
    with Some show ?thesis
      by (simp add: rate_field_def magnitude_field_def)
  qed
qed

lemma float_of_int_big: "float_of_int 9007199254740993 = Inr 9007199254740992"
  by (simp add: float_of_int_def Let_def bit_length_54)

section \<open>Rates of the top-products report\<close>

lemma magnitude_field_value:
  "num_value (magnitude_field (Some v)) = Some (of_int \<bar>py_int_num v\<bar>)"
  by (cases v) (auto simp: magnitude_field_def trunc_def)

lemma trunc_numeral: "trunc (numeral k) = numeral k"
  by (simp add: trunc_def)

text \<open>
  Claim C6, as stated: for every non-null rate the mapped field equals the magnitude of
  the truncated value. The mapper converts through \<^verbatim>\<open>float\<close> first, so an integer rate
  of \<open>2 ^ 53 + 1\<close> is mapped to \<open>2 ^ 53\<close>.
\<close>

theorem rate_field_rounds_large_integer:
  "projected_demand_record (PStr ''P1'', Some (NInt 9007199254740993), None, None)
     = Inr (PDict [(''Product Code'', PStr ''P1''),
                   (''Current Month Sales Rate'', PInt 9007199254740992),
                   (''Current Month Forecast Rate'', PFloat 0),
                   (''Next Month Forecast Rate'', PFloat 0)])
   \<and> num_value (PInt 9007199254740992) \<noteq> Some (of_int \<bar>py_int_num (NInt 9007199254740993)\<bar>)"
  by (simp add: projected_demand_record_def rate_field_def float_of_int_big trunc_numeral)

text \<open>
  Claim C6, amended. In the top-products report a NULL rate is mapped to \<^verbatim>\<open>0.0\<close> and
  raises nothing. A non-null rate that is a float, or an integer of magnitude at most
  \<open>2 ^ 53\<close>, is mapped to a field whose value is the magnitude of the truncated rate: the
  float \<^verbatim>\<open>0.0\<close> when the rate is zero, an integer otherwise.
\<close>

theorem rate_fields_of_exact_cells:
  "rate_field None = Inr (PFloat 0)
   \<and> magnitude_field None = PFloat 0
   \<and> num_value (magnitude_field (Some v)) = Some (of_int \<bar>py_int_num v\<bar>)
   \<and> (float_exact c1 \<and> float_exact c2 \<and> float_exact c3 \<longrightarrow>
        projected_demand_record (c0, c1, c2, c3)
        = Inr (PDict [(''Product Code'', c0),
                      (''Current Month Sales Rate'', magnitude_field c1),
                      (''Current Month Forecast Rate'', magnitude_field c2),
                      (''Next Month Forecast Rate'', magnitude_field c3)]))"
  by (simp add: magnitude_field_value rate_field_exact projected_demand_record_def)
     (simp add: rate_field_def magnitude_field_def)

lemma trunc_example: "trunc (- 7 / 2) = - 3"
  by code_simp

theorem rate_fields_of_exact_cells_witness:
  "projected_demand_record (PStr ''P1'', Some (NFloat (- 7 / 2)), None, Some (NInt 12))
   = Inr (PDict [(''Product Code'', PStr ''P1''),
                 (''Current Month Sales Rate'', PInt 3),
                 (''Current Month Forecast Rate'', PFloat 0),
                 (''Next Month Forecast Rate'', PInt 12)])"
  using rate_fields_of_exact_cells[of "NInt 12" "Some (NFloat (- 7 / 2))" None "Some (NInt 12)"
      "PStr ''P1''"] trunc_example
  by (simp add: float_exact_def magnitude_field_def)

section \<open>Zero and NULL metrics in the sales reports\<close>

lemma rate_field_falsy: "\<not> num_truthy cell \<Longrightarrow> rate_field cell = Inr (PFloat 0)"
  by (cases cell) (simp_all add: rate_field_def)

lemma rate_field_shape: "rate_field cell = Inr f \<Longrightarrow> zero_or_int cell f"
  by (auto simp: rate_field_def zero_or_int_def split: option.splits sum.splits if_splits)

lemma sales_rate_field_shape: "\<exists>f. sales_rate_field cell = Inr f \<and> zero_or_int cell f"
  by (cases cell) (simp_all add: sales_rate_field_def zero_or_int_def)

lemma sales_rate_field_falsy: "\<not> num_truthy cell \<Longrightarrow> sales_rate_field cell = Inr (PFloat 0)"
  by (cases cell) (simp_all add: sales_rate_field_def)

lemma projected_demand_shape:
  assumes "projected_demand_record (c0, c1, c2, c3) = Inr rec"
  shows "\<exists>f1 f2 f3.
           rec = PDict [(''Product Code'', c0),
                        (''Current Month Sales Rate'', f1),
                        (''Current Month Forecast Rate'', f2),
                        (''Next Month Forecast Rate'', f3)]
           \<and> zero_or_int c1 f1 \<and> zero_or_int c2 f2 \<and> zero_or_int c3 f3"
  using assms
  by (auto simp: projected_demand_record_def split: sum.splits dest: rate_field_shape)

lemma selling_shape:
  assumes "selling_record k (c0, c1, c2, c3) = Inr rec"
  shows "\<exists>f1 f2 f3.
           rec = PDict [(''Product Code'', c0),
                        (''Total Forecast per day'', f2),
                        (''Total Sales per day'', f1),
                        (k, f3)]
           \<and> zero_or_int c1 f1 \<and> zero_or_int c2 f2 \<and> zero_or_int c3 f3"
  using assms
  by (auto simp: selling_record_def split: sum.splits dest: rate_field_shape)

lemma forecast_shape:
  assumes "forecast_record (c0, b, c1, c2, c3) = Inr rec"
  shows "\<exists>f1 f2 f3.
           rec = PDict [(''Warehouse Location'', c0),
                        (''Product Code'', b),
                        (''Average Forecast Rate'', f1),
                        (''Average Sales Rate'', f2),
                        (''Average Forecast Error'', f3)]
           \<and> zero_or_int c1 f1 \<and> zero_or_int c2 f2 \<and> zero_or_int c3 f3"
  using assms
  by (auto simp: forecast_record_def split: sum.splits dest: rate_field_shape)

lemma sales_rate_shape:
  "\<exists>f. sales_rate_record (c0, c1)
           = Inr (PDict [(''Warehouse Location'', c0), (''Sales rate per day'', f)])
       \<and> zero_or_int c1 f"
  using sales_rate_field_shape[of c1] by (auto simp: sales_rate_record_def)

text \<open>
  Claim C10. In the five sales-report mappers the guard is a truth test, so a metric of
  \<^verbatim>\<open>0\<close> or \<^verbatim>\<open>0.0\<close> gives the same record as NULL, with the float \<^verbatim>\<open>0.0\<close> in the field;
  every other metric is mapped to an integer.
\<close>

theorem zero_and_null_metrics_coincide:
  "(\<not> num_truthy c1 \<and> \<not> num_truthy c2 \<and> \<not> num_truthy c3 \<longrightarrow>
      projected_demand_record (c0, c1, c2, c3) = projected_demand_record (c0, None, None, None)
      \<and> selling_record k (c0, c1, c2, c3) = selling_record k (c0, None, None, None)
      \<and> forecast_record (c0, b, c1, c2, c3) = forecast_record (c0, b, None, None, None)
      \<and> sales_rate_record (c0, c1) = sales_rate_record (c0, None))
   \<and> projected_demand_record (c0, None, None, None)
      = Inr (PDict [(''Product Code'', c0),
                    (''Current Month Sales Rate'', PFloat 0),
                    (''Current Month Forecast Rate'', PFloat 0),
                    (''Next Month Forecast Rate'', PFloat 0)])
   \<and> selling_record k (c0, None, None, None)
      = Inr (PDict [(''Product Code'', c0),
                    (''Total Forecast per day'', PFloat 0),
                    (''Total Sales per day'', PFloat 0),
                    (k, PFloat 0)])
   \<and> forecast_record (c0, b, None, None, None)
      = Inr (PDict [(''Warehouse Location'', c0),
                    (''Product Code'', b),
                    (''Average Forecast Rate'', PFloat 0),
                    (''Average Sales Rate'', PFloat 0),
                    (''Average Forecast Error'', PFloat 0)])
   \<and> sales_rate_record (c0, None)
      = Inr (PDict [(''Warehouse Location'', c0), (''Sales rate per day'', PFloat 0)])
   \<and> (projected_demand_record (c0, c1, c2, c3) = Inr rec1 \<longrightarrow>
        (\<exists>f1 f2 f3.
           rec1 = PDict [(''Product Code'', c0),
                         (''Current Month Sales Rate'', f1),
                         (''Current Month Forecast Rate'', f2),
                         (''Next Month Forecast Rate'', f3)]
           \<and> zero_or_int c1 f1 \<and> zero_or_int c2 f2 \<and> zero_or_int c3 f3))
   \<and> (selling_record k (c0, c1, c2, c3) = Inr rec2 \<longrightarrow>
        (\<exists>f1 f2 f3.
           rec2 = PDict [(''Product Code'', c0),
                         (''Total Forecast per day'', f2),
                         (''Total Sales per day'', f1),
                         (k, f3)]
           \<and> zero_or_int c1 f1 \<and> zero_or_int c2 f2 \<and> zero_or_int c3 f3))
   \<and> (forecast_record (c0, b, c1, c2, c3) = Inr rec3 \<longrightarrow>
        (\<exists>f1 f2 f3.
           rec3 = PDict [(''Warehouse Location'', c0),
                         (''Product Code'', b),
                         (''Average Forecast Rate'', f1),
                         (''Average Sales Rate'', f2),
                         (''Average Forecast Error'', f3)]
           \<and> zero_or_int c1 f1 \<and> zero_or_int c2 f2 \<and> zero_or_int c3 f3))
   \<and> (\<exists>f. sales_rate_record (c0, c1)
            = Inr (PDict [(''Warehouse Location'', c0), (''Sales rate per day'', f)])
        \<and> zero_or_int c1 f)"
proof (intro conjI impI)
  assume z: "\<not> num_truthy c1 \<and> \<not> num_truthy c2 \<and> \<not> num_truthy c3"
  show "projected_demand_record (c0, c1, c2, c3) = projected_demand_record (c0, None, None, None)"
    using z by (simp add: projected_demand_record_def rate_field_falsy)
  show "selling_record k (c0, c1, c2, c3) = selling_record k (c0, None, None, None)"
    using z by (simp add: selling_record_def rate_field_falsy)
  show "forecast_record (c0, b, c1, c2, c3) = forecast_record (c0, b, None, None, None)"
    using z by (simp add: forecast_record_def rate_field_falsy)
  show "sales_rate_record (c0, c1) = sales_rate_record (c0, None)"
    using z by (simp add: sales_rate_record_def sales_rate_field_falsy)
next
  show "projected_demand_record (c0, None, None, None)
      = Inr (PDict [(''Product Code'', c0),
                    (''Current Month Sales Rate'', PFloat 0),
                    (''Current Month Forecast Rate'', PFloat 0),
                    (''Next Month Forecast Rate'', PFloat 0)])"
    by (simp add: projected_demand_record_def rate_field_falsy)
  show "selling_record k (c0, None, None, None)
      = Inr (PDict [(''Product Code'', c0),
                    (''Total Forecast per day'', PFloat 0),
                    (''Total Sales per day'', PFloat 0),
                    (k, PFloat 0)])"
    by (simp add: selling_record_def rate_field_falsy)
  show "forecast_record (c0, b, None, None, None)
      = Inr (PDict [(''Warehouse Location'', c0),
                    (''Product Code'', b),
                    (''Average Forecast Rate'', PFloat 0),
                    (''Average Sales Rate'', PFloat 0),
                    (''Average Forecast Error'', PFloat 0)])"
    by (simp add: forecast_record_def rate_field_falsy)
  show "sales_rate_record (c0, None)
      = Inr (PDict [(''Warehouse Location'', c0), (''Sales rate per day'', PFloat 0)])"
    by (simp add: sales_rate_record_def sales_rate_field_falsy)
  show "\<exists>f. sales_rate_record (c0, c1)
            = Inr (PDict [(''Warehouse Location'', c0), (''Sales rate per day'', f)])
        \<and> zero_or_int c1 f"
    by (rule sales_rate_shape)
next
  assume "projected_demand_record (c0, c1, c2, c3) = Inr rec1"
  then show "\<exists>f1 f2 f3.
           rec1 = PDict [(''Product Code'', c0),
                         (''Current Month Sales Rate'', f1),
                         (''Current Month Forecast Rate'', f2),
                         (''Next Month Forecast Rate'', f3)]
           \<and> zero_or_int c1 f1 \<and> zero_or_int c2 f2 \<and> zero_or_int c3 f3"
    by (rule projected_demand_shape)
next
  assume "selling_record k (c0, c1, c2, c3) = Inr rec2"
  then show "\<exists>f1 f2 f3.
           rec2 = PDict [(''Product Code'', c0),
                         (''Total Forecast per day'', f2),
                         (''Total Sales per day'', f1),
                         (k, f3)]
           \<and> zero_or_int c1 f1 \<and> zero_or_int c2 f2 \<and> zero_or_int c3 f3"
    by (rule selling_shape)
next
  assume "forecast_record (c0, b, c1, c2, c3) = Inr rec3"
  then show "\<exists>f1 f2 f3.
           rec3 = PDict [(''Warehouse Location'', c0),
                         (''Product Code'', b),
                         (''Average Forecast Rate'', f1),
                         (''Average Sales Rate'', f2),
                         (''Average Forecast Error'', f3)]
           \<and> zero_or_int c1 f1 \<and> zero_or_int c2 f2 \<and> zero_or_int c3 f3"
    by (rule forecast_shape)
qed


theorem zero_and_null_metrics_coincide_witness:
  "projected_demand_record (PStr ''P1'', Some (NInt 0), Some (NFloat 0), None)
     = projected_demand_record (PStr ''P1'', None, None, None)
   \<and> selling_record ''Oversold per day'' (PStr ''P1'', Some (NInt 0), Some (NFloat 0), None)
     = selling_record ''Oversold per day'' (PStr ''P1'', None, None, None)
   \<and> forecast_record (PStr ''P1'', PInt 7, Some (NInt 0), Some (NFloat 0), None)
     = forecast_record (PStr ''P1'', PInt 7, None, None, None)
   \<and> sales_rate_record (PStr ''P1'', Some (NInt 0)) = sales_rate_record (PStr ''P1'', None)
   \<and> (\<exists>f1 f2 f3.
         PDict [(''Product Code'', PStr ''P1''),
                (''Current Month Sales Rate'', PInt 3),
                (''Current Month Forecast Rate'', PInt 12),
                (''Next Month Forecast Rate'', PFloat 0)]
         = PDict [(''Product Code'', PStr ''P1''),
                  (''Current Month Sales Rate'', f1),
                  (''Current Month Forecast Rate'', f2),
                  (''Next Month Forecast Rate'', f3)]
         \<and> zero_or_int (Some (NFloat (7 / 2))) f1 \<and> zero_or_int (Some (NInt 12)) f2
         \<and> zero_or_int (Some (NInt 0)) f3)
   \<and> (\<exists>f1 f2 f3.
         PDict [(''Product Code'', PStr ''P1''),
                (''Total Forecast per day'', PInt 12),
                (''Total Sales per day'', PInt 3),
                (''Oversold per day'', PFloat 0)]
         = PDict [(''Product Code'', PStr ''P1''),
                  (''Total Forecast per day'', f2),
                  (''Total Sales per day'', f1),
                  (''Oversold per day'', f3)]
         \<and> zero_or_int (Some (NFloat (7 / 2))) f1 \<and> zero_or_int (Some (NInt 12)) f2
         \<and> zero_or_int (Some (NInt 0)) f3)
   \<and> (\<exists>f1 f2 f3.
         PDict [(''Warehouse Location'', PStr ''P1''),
                (''Product Code'', PInt 7),
                (''Average Forecast Rate'', PInt 3),
                (''Average Sales Rate'', PInt 12),
                (''Average Forecast Error'', PFloat 0)]
         = PDict [(''Warehouse Location'', PStr ''P1''),
                  (''Product Code'', PInt 7),
                  (''Average Forecast Rate'', f1),
                  (''Average Sales Rate'', f2),
                  (''Average Forecast Error'', f3)]
         \<and> zero_or_int (Some (NFloat (7 / 2))) f1 \<and> zero_or_int (Some (NInt 12)) f2
         \<and> zero_or_int (Some (NInt 0)) f3)"
proof -
  have r1: "rate_field (Some (NFloat (7 / 2))) = Inr (PInt 3)"
  proof -
    have "trunc (7 / 2) = 3" by code_simp
    then show ?thesis by (simp add: rate_field_def)
  qed
  have r2: "rate_field (Some (NInt 12)) = Inr (PInt 12)"
    using float_of_int_exact[of 12] by (simp add: rate_field_def trunc_numeral)
  have r3: "rate_field (Some (NInt 0)) = Inr (PFloat 0)"
    by (simp add: rate_field_def)
  have h1: "projected_demand_record (PStr ''P1'', Some (NFloat (7 / 2)), Some (NInt 12), Some (NInt 0))
            = Inr (PDict [(''Product Code'', PStr ''P1''),
                          (''Current Month Sales Rate'', PInt 3),
                          (''Current Month Forecast Rate'', PInt 12),
                          (''Next Month Forecast Rate'', PFloat 0)])"
    by (simp add: projected_demand_record_def r1 r2 r3)
  have h2: "selling_record ''Oversold per day''
              (PStr ''P1'', Some (NFloat (7 / 2)), Some (NInt 12), Some (NInt 0))
            = Inr (PDict [(''Product Code'', PStr ''P1''),
                          (''Total Forecast per day'', PInt 12),
                          (''Total Sales per day'', PInt 3),
                          (''Oversold per day'', PFloat 0)])"
    by (simp add: selling_record_def r1 r2 r3)
  have h3: "forecast_record
              (PStr ''P1'', PInt 7, Some (NFloat (7 / 2)), Some (NInt 12), Some (NInt 0))
            = Inr (PDict [(''Warehouse Location'', PStr ''P1''),
                          (''Product Code'', PInt 7),
                          (''Average Forecast Rate'', PInt 3),
                          (''Average Sales Rate'', PInt 12),
                          (''Average Forecast Error'', PFloat 0)])"
    by (simp add: forecast_record_def r1 r2 r3)
  have z: "\<not> num_truthy (Some (NInt 0)) \<and> \<not> num_truthy (Some (NFloat 0)) \<and> \<not> num_truthy None"
    by simp
  show ?thesis
    using z h1 h2 h3
      zero_and_null_metrics_coincide[of "Some (NInt 0)" "Some (NFloat 0)" None "PStr ''P1''"
        "''Oversold per day''" "PInt 7"]
      zero_and_null_metrics_coincide[of "Some (NFloat (7 / 2))" "Some (NInt 12)"
        "Some (NInt 0)" "PStr ''P1''" "''Oversold per day''" "PInt 7"
        "PDict [(''Product Code'', PStr ''P1''),
                (''Current Month Sales Rate'', PInt 3),
                (''Current Month Forecast Rate'', PInt 12),
                (''Next Month Forecast Rate'', PFloat 0)]"
        "PDict [(''Product Code'', PStr ''P1''),
                (''Total Forecast per day'', PInt 12),
                (''Total Sales per day'', PInt 3),
                (''Oversold per day'', PFloat 0)]"
        "PDict [(''Warehouse Location'', PStr ''P1''),
                (''Product Code'', PInt 7),
                (''Average Forecast Rate'', PInt 3),
                (''Average Sales Rate'', PInt 12),
                (''Average Forecast Error'', PFloat 0)]"]
    by simp
qed

lemma float_of_int_Inl:
  assumes "float_of_int n = Inl e"
  shows "\<exists>m. 2 ^ 1024 \<le> m * 2 ^ (bit_length (nat \<bar>n\<bar>) - 53)
             \<and> m \<le> nat \<bar>n\<bar> div 2 ^ (bit_length (nat \<bar>n\<bar>) - 53) + 1
             \<and> \<not> bit_length (nat \<bar>n\<bar>) \<le> 53"
proof (cases "bit_length (nat \<bar>n\<bar>) \<le> 53")
  case True
  with assms show ?thesis by (simp add: float_of_int_def Let_def)
next
  case False
  let ?k = "bit_length (nat \<bar>n\<bar>) - 53"
  let ?q = "nat \<bar>n\<bar> div 2 ^ ?k"
  let ?m = "if 2 ^ (?k - 1) < nat \<bar>n\<bar> mod 2 ^ ?k \<or> (nat \<bar>n\<bar> mod 2 ^ ?k = 2 ^ (?k - 1) \<and> odd ?q)
            then ?q + 1 else ?q"
  have eq: "float_of_int n =
        (if 2 ^ 1024 \<le> ?m * 2 ^ ?k
         then Inl (OverflowError ''int too large to convert to float'')
         else Inr (of_int (sgn n * int (?m * 2 ^ ?k))))"
    unfolding float_of_int_def Let_def using False by (rule if_not_P)
  have "2 ^ 1024 \<le> ?m * 2 ^ ?k"
  proof (rule ccontr)
    assume "\<not> 2 ^ 1024 \<le> ?m * 2 ^ ?k"
    then have "float_of_int n = Inr (of_int (sgn n * int (?m * 2 ^ ?k)))"
      unfolding eq by (rule if_not_P)
    with assms show False by simp
  qed
  moreover have "?m \<le> ?q + 1" by simp
  ultimately show ?thesis using False by blast
qed

text \<open>Within the range of the doubles the conversion never raises, so the mappers give a
  record for every float and for every integer of magnitude below \<open>2 ^ 1023\<close>.\<close>

lemma float_of_int_in_range:
  assumes "\<bar>n\<bar> < 2 ^ 1023"
  shows "\<exists>x. float_of_int n = Inr x"
proof (cases "float_of_int n")
  case (Inr x)
  then show ?thesis by blast
next
  case (Inl e)
  let ?a = "nat \<bar>n\<bar>"
  let ?k = "bit_length ?a - 53"
  let ?q = "?a div 2 ^ ?k"
  from float_of_int_Inl[OF Inl] obtain m where
    m: "2 ^ 1024 \<le> m * 2 ^ ?k" "m \<le> ?q + 1" "\<not> bit_length ?a \<le> 53"
    by blast
  from m(3) have "?a \<noteq> 0" by (cases "?a = 0") (simp_all add: bit_length.simps)
  then have "2 ^ (bit_length ?a - 1) \<le> ?a" by (rule bit_length_lower)
  moreover have "(2::nat) ^ ?k \<le> 2 ^ (bit_length ?a - 1)"
    by (rule power_increasing) simp_all
  ultimately have pk: "2 ^ ?k \<le> ?a" by (rule order_trans[rotated])
  have qk: "?q * 2 ^ ?k \<le> ?a" by (rule div_times_less_eq_dividend)
  from m(2) have "m * 2 ^ ?k \<le> (?q + 1) * 2 ^ ?k" by (rule mult_le_mono1)
  also have "\<dots> = ?q * 2 ^ ?k + 2 ^ ?k" by (simp only: add_mult_distrib mult_1)
  also have "\<dots> \<le> ?a + ?a" using qk pk by (rule add_mono)
  finally have le: "m * 2 ^ ?k \<le> ?a + ?a" .
  from assms have "\<bar>n\<bar> < int (2 ^ 1023)" by (simp only: of_nat_power of_nat_numeral)
  then have "?a < 2 ^ 1023" by (metis abs_ge_zero nat_less_iff)
  from this this have "?a + ?a < 2 ^ 1023 + 2 ^ 1023" by (rule add_strict_mono)
  also have "(2::nat) ^ 1023 + 2 ^ 1023 = 2 ^ 1024" by simp
  finally have "?a + ?a < 2 ^ 1024" .
  with le m(1) have False by (meson le_less_trans not_le)
  then show ?thesis ..
qed

lemma rate_field_in_range:
  assumes "\<And>n. cell = Some (NInt n) \<Longrightarrow> \<bar>n\<bar> < 2 ^ 1023"
  shows "\<exists>f. rate_field cell = Inr f"
proof (cases cell)
  case None
  then show ?thesis by (simp add: rate_field_def)
next
  case (Some v)
  show ?thesis
  proof (cases v)
    case (NInt n)
    with Some assms have "\<bar>n\<bar> < 2 ^ 1023" by simp
    then obtain x where "float_of_int n = Inr x" using float_of_int_in_range by blast
    with Some NInt show ?thesis by (simp add: rate_field_def)
  next
    case (NFloat x)
    with Some show ?thesis by (simp add: rate_field_def)
  qed
qed

section \<open>Variance percentage\<close>

lemma str_int_0: "str_int 0 = ''0''"
  by code_simp

text \<open>
  Claim C2 at a row whose ideal stock is 0: the guard branch yields the integer \<^verbatim>\<open>0\<close>,
  \<^verbatim>\<open>round(0, 1)\<close> is still the integer \<^verbatim>\<open>0\<close>, and the \<open>Variancy\<close> field is \<open>0%\<close>, not the
  one-decimal \<open>0.0%\<close>.
\<close>

theorem variancy_of_zero_ideal_stock:
  "variance_item (PStr ''North'', PStr ''P1'', PStr ''Tools'', PInt 150, Some (NInt 150), Some (NInt 0))
   = Inr (PDict [(''Warehouse Location'', PStr ''North''),
                 (''Product Code'', PStr ''P1''),
                 (''Product Category'', PStr ''Tools''),
                 (''Stock Difference'', PInt 150),
                 (''Current Stock'', PInt 150),
                 (''Ideal Stock Requirement'', PInt 0),
                 (''Variancy'', PStr ''0%'')])"
  by (simp add: variance_item_def str_int_0)

text \<open>The guard branch in general: whenever the ideal stock is not positive the field is
  \<open>0%\<close>, whatever the current stock, NULL included.\<close>

lemma variancy_guard_branch:
  assumes "num_val ideal \<le> 0"
  shows "variance_item (c0, c1, c2, c3, current, Some ideal)
         = Inr (PDict [(''Warehouse Location'', c0),
                       (''Product Code'', c1),
                       (''Product Category'', c2),
                       (''Stock Difference'', c3),
                       (''Current Stock'', of_numcell current),
                       (''Ideal Stock Requirement'', of_num ideal),
                       (''Variancy'', PStr ''0%'')])"
  using assms by (simp add: variance_item_def str_int_0)

text \<open>The other branch at the row of the specification: current stock 150 against an
  ideal stock of 100 gives \<open>50.0%\<close>.\<close>

lemma variancy_150_100:
  "variance_item (PStr ''North'', PStr ''P1'', PStr ''Tools'', PInt 50, Some (NInt 150), Some (NInt 100))
   = Inr (PDict [(''Warehouse Location'', PStr ''North''),
                 (''Product Code'', PStr ''P1''),
                 (''Product Category'', PStr ''Tools''),
                 (''Stock Difference'', PInt 50),
                 (''Current Stock'', PInt 150),
                 (''Ideal Stock Requirement'', PInt 100),
                 (''Variancy'', PStr ''50.0%'')])"
  by code_simp

end
